theory Spec2Isabelle
  imports Complex_Main
begin

section \<open>The bounded cache used by the imagery provider\<close>

text \<open>
  Modelled from the spec: the class \<open>LRUCache\<close> is imported from the OpenLayers library
  (\<open>ol/structs/LRUCache.js\<close>) and is not part of the sources. The provider uses its
  members \<open>highWaterMark\<close>, \<open>containsKey\<close>, \<open>get\<close>, \<open>set\<close>, \<open>getCount\<close>,
  \<open>canExpireCache\<close> and \<open>pop\<close>. The cache is a container with a target capacity
  \<open>highWaterMark\<close>; \<open>set\<close> inserts and does not evict; eviction removes the oldest
  entry, and is wanted as long as the occupancy is above \<open>highWaterMark\<close>. The entries
  are kept oldest first. The capacity is a count, hence a natural number.
\<close>

record 'v LRUCache =
  highWaterMark :: nat
  entries :: "(string \<times> 'v) list"

definition getCount :: "'v LRUCache \<Rightarrow> nat" where
  "getCount c = length (entries c)"

definition containsKey :: "'v LRUCache \<Rightarrow> string \<Rightarrow> bool" where
  "containsKey c k = (map_of (entries c) k \<noteq> None)"

text \<open>
  Modelled from the spec: \<open>get\<close> returns the stored value when the key is present and
  is absent otherwise. The cache is a least-recently-used one (its name), so a hit makes
  the entry the newest one.
\<close>

definition get :: "'v LRUCache \<Rightarrow> string \<Rightarrow> 'v option \<times> 'v LRUCache" where
  "get c k =
     (case map_of (entries c) k of
        None \<Rightarrow> (None, c)
      | Some v \<Rightarrow> (Some v, c\<lparr>entries := filter (\<lambda>e. fst e \<noteq> k) (entries c) @ [(k, v)]\<rparr>))"

text \<open>
  Modelled from the spec: \<open>set\<close> inserts the entry as the newest one and evicts nothing.
  The provider calls it only after \<open>containsKey\<close> has answered no for the key.
\<close>

definition set_entry :: "'v LRUCache \<Rightarrow> string \<Rightarrow> 'v \<Rightarrow> 'v LRUCache" where
  "set_entry c k v = c\<lparr>entries := entries c @ [(k, v)]\<rparr>"

text \<open>
  Modelled from the spec: eviction goes on until the occupancy is back at or below
  \<open>highWaterMark\<close>, so \<open>canExpireCache\<close> holds exactly when the occupancy is above it.
\<close>

definition canExpireCache :: "'v LRUCache \<Rightarrow> bool" where
  "canExpireCache c = (getCount c > highWaterMark c)"

text \<open>
  Modelled from the spec: \<open>pop\<close> removes the oldest entry. The provider calls it only
  while \<open>canExpireCache\<close> holds, that is on a cache that is not empty.
\<close>

definition pop :: "'v LRUCache \<Rightarrow> 'v LRUCache" where
  "pop c = (case entries c of [] \<Rightarrow> c | e # es \<Rightarrow> c\<lparr>entries := es\<rparr>)"

text \<open>
  The loop \<open>while (cache.canExpireCache()) cache.pop();\<close> of \<open>requestImage\<close> and of
  \<open>getTileFeatures\<close>.
\<close>

function expireCache :: "'v LRUCache \<Rightarrow> 'v LRUCache" where
  "expireCache c = (if canExpireCache c then expireCache (pop c) else c)"
  by pat_completeness auto
termination
  by (relation "measure (\<lambda>c. length (entries c))")
     (auto simp: canExpireCache_def getCount_def pop_def split: list.splits)

declare expireCache.simps [simp del]

text \<open>
  The statements that follow a cache miss in both functions:
  \<open>cache.set(cacheKey, promise);
   if (cache.getCount() > 2 * cache.highWaterMark) { while (cache.canExpireCache()) cache.pop(); }\<close>
\<close>

definition setAndExpire :: "'v LRUCache \<Rightarrow> string \<Rightarrow> 'v \<Rightarrow> 'v LRUCache" where
  "setAndExpire c k v =
     (let c1 = set_entry c k v
      in if getCount c1 > 2 * highWaterMark c1 then expireCache c1 else c1)"

section \<open>Values of the surrounding libraries\<close>

text \<open>
  The provider is the class \<open>MVTWMSImageryProvider\<close> of
  \<open>src/olcs/MVTWMSImageryProvider.ts\<close>. A private member \<open>name_\<close> of the class is
  written \<open>name'\<close>. JavaScript numbers that address tiles are integers; sizes and
  coordinates are real numbers; an element of a coordinate array is a real number or
  \<open>None\<close>, which stands for \<open>NaN\<close> and for \<open>undefined\<close>. An array lives in a store
  at an address, so that two references to one array are one address.
\<close>

datatype error = Thrown string

type_synonym number = "real option"

type_synonym heap = "number list list"

type_synonym Rectangle = "real \<times> real \<times> real \<times> real"

type_synonym headers = "(string \<times> string) list"

type_synonym Style = string

type_synonym Credit = string

type_synonym bytes = "nat list"

record Projection =
  getCode :: string
  getExtent :: "real list"

datatype tileSize = Size real | SizeArray real real

text \<open>
  A tile grid of OpenLayers, as far as the provider reads it: \<open>getTileSize(z)\<close>,
  \<open>getMaxZoom()\<close>, and the tile coordinates \<open>[z, x, y]\<close> that
  \<open>forEachTileCoord(extent, zoom, callback)\<close> hands to its callback, in order.
\<close>

record TileGrid =
  getTileSize :: "int \<Rightarrow> tileSize"
  getMaxZoom :: int
  forEachTileCoord :: "real list \<Rightarrow> int \<Rightarrow> (int \<times> int \<times> int) list"

text \<open>
  The two tiling schemes of Cesium, with the options they are constructed from
  (\<open>numberOfLevelZeroTilesX\<close>, \<open>numberOfLevelZeroTilesY\<close>; \<open>None\<close> without options).
\<close>

datatype TilingScheme =
    WebMercatorTilingScheme "(int \<times> int) option"
  | GeographicTilingScheme "(int \<times> int) option"

datatype promise = Promise nat | DelegatePromise nat

datatype paramValue = PString string | PBool bool

type_synonym tileUrlFunction = "int \<times> int \<times> int \<Rightarrow> real \<Rightarrow> Projection \<Rightarrow> error + string option"

type_synonym headersFunction = "int \<times> int \<times> int \<Rightarrow> error + headers option"

type_synonym getURL = "string option \<Rightarrow> error + string option"

text \<open>
  The value stored on the source under \<open>'olcs.proxy'\<close>: a function, a string, or
  something else that is truthy.
\<close>

datatype proxySetting = ProxyFunction getURL | ProxyString string | ProxyOther

text \<open>
  A \<open>TileWMS\<close> source of OpenLayers, by what its accessors answer: the first URL, the
  request parameters, projection, tile grid, the \<open>crossOrigin\<close> it was constructed with
  (it has no accessor), the member \<open>serverType_\<close> and the value stored under
  \<open>'serverType'\<close>,
  the attributions, the tile load function (by name), and the values stored under
  \<open>'olcs_proxy'\<close> and \<open>'olcs_authHeaders'\<close>.
\<close>

record TileWMS =
  wmsUrl :: "string option"
  wmsParams :: "string \<Rightarrow> paramValue option"
  wmsProjection :: "Projection option"
  wmsTileGrid :: "TileGrid option"
  wmsCrossOrigin :: "string option"
  wmsServerType :: "string option"
  wmsGetServerType :: "string option"
  wmsTransition :: nat
  wmsAttributions :: "string option"
  wmsTileLoadFunction :: "string option"
  wmsOlcsProxy :: "proxySetting option"
  wmsAuthHeaders :: "headersFunction option"

text \<open>
  The vector tile source of OpenLayers, by what the provider reads from it:
  \<open>getState()\<close>, \<open>getProjection()\<close>, the tile grid (\<open>tileGrid\<close>, \<open>getTileGrid()\<close>; \<open>None\<close>
  is \<open>null\<close>), \<open>getTileGridForProjection\<close>, \<open>getTileUrlFunction()\<close>,
  \<open>getAttributions()\<close>, \<open>getTileLoadFunction()\<close>, the members \<open>params_\<close>,
  \<open>serverType_\<close>, \<open>wmsCompanion\<close>, \<open>olcs_authHeaders\<close>, and the values that
  \<open>get(key)\<close> answers for the keys the provider asks for.
\<close>

record VectorTileSource =
  getState :: string
  getProjection :: "Projection option"
  tileGrid :: "TileGrid option"
  getTileGridForProjection :: "Projection \<Rightarrow> TileGrid option"
  getTileUrlFunction :: "tileUrlFunction option"
  getAttributions :: "string option"
  getTileLoadFunction :: "string option"
  params' :: "(string \<Rightarrow> paramValue option) option"
  serverType' :: "string option"
  wmsCompanion :: "TileWMS option"
  olcs_authHeaders :: "headersFunction option"
  get_olcs_proxy_dot :: "proxySetting option"
  get_olcs_proxy :: "proxySetting option"
  get_olcs_authHeaders :: "headersFunction option"
  get_olcs_wmsFormat :: "string option"
  get_olcs_wmsCompanion :: "TileWMS option"
  get_crossOrigin :: "string option"
  get_serverType :: "string option"

text \<open>
  Modelled from the spec: the class \<open>OLImageryProvider\<close> (\<open>./core/OLImageryProvider\<close>)
  is not among the sources. It is the generic raster bridge, which answers the
  contract of an imagery provider: \<open>tileWidth\<close>, \<open>tileHeight\<close>, \<open>maximumLevel\<close> and
  \<open>minimumLevel\<close> are numbers, \<open>hasAlphaChannel\<close> is a boolean, \<open>getTileCredits\<close> and
  \<open>pickFeatures\<close> are methods, \<open>tileDiscardPolicy\<close> and \<open>rectangle\<close> may be absent
  (\<open>None\<close>), and \<open>requestImage\<close> and \<open>pickFeatures\<close> may answer \<open>undefined\<close> (\<open>None\<close>).
\<close>

record OLImageryProvider =
  delegateTileWidth :: real
  delegateTileHeight :: real
  delegateMaximumLevel :: int
  delegateMinimumLevel :: int
  delegateTileDiscardPolicy :: "string option"
  delegateHasAlphaChannel :: bool
  delegateTilingScheme :: TilingScheme
  delegateRectangle :: "Rectangle option"
  delegateRequestImage :: "int \<Rightarrow> int \<Rightarrow> int \<Rightarrow> string option \<Rightarrow> promise option"
  delegateGetTileCredits :: "int \<Rightarrow> int \<Rightarrow> int \<Rightarrow> Credit list"
  delegatePickFeatures :: "int \<Rightarrow> int \<Rightarrow> int \<Rightarrow> real \<Rightarrow> real \<Rightarrow> promise option"

text \<open>The OpenLayers map, by the view's extent and centre that \<open>getTileCredits\<close> reads.\<close>

record Map =
  calculateExtent :: "real list"
  getCenter :: "real list"

text \<open>
  A decoded feature (\<open>RenderFeature\<close> of OpenLayers): \<open>getFlatCoordinates()\<close> is a
  reference to the feature's own coordinate array (\<open>None\<close> when there is none),
  \<open>getType()\<close>, \<open>getEnds()\<close> and \<open>getEndss?.()\<close>.
\<close>

record RenderFeature =
  getFlatCoordinates :: "nat option"
  getType :: string
  getEnds :: "nat list option"
  getEndss :: "nat list list option"

type_synonym coord = "number \<times> number"

datatype geometry =
    Point coord
  | MultiPoint "coord list"
  | LineString "coord list"
  | Polygon "coord list list"
  | MultiLineString "coord list list"
  | MultiPolygon "coord list list list"

text \<open>
  A canvas, by its size and the calls \<open>setStyle(s); drawGeometry(g)\<close> made on its
  vector context, in order.
\<close>

record canvas =
  width :: real
  height :: real
  drawn :: "(Style \<times> geometry) list"

text \<open>
  What a style function returns: nothing, one style, or an array of styles. A style
  function of OpenLayers reads the feature and the resolution, and writes nothing.
\<close>

datatype styles = NoStyle | OneStyle Style | StyleArray "Style list"

type_synonym StyleFunction = "RenderFeature \<Rightarrow> real \<Rightarrow> styles"

text \<open>
  The functions of the libraries and of modules that are not among the sources, which
  the provider calls: the module constant \<open>olUseNewCoordinates\<close> (the outcome of the
  probe of OpenLayers at load time), the \<open>rectangle\<close> of a Cesium tiling scheme and its
  \<open>tileXYToNativeRectangle\<close>, \<open>getURL\<close> of \<open>Cesium.DefaultProxy\<close>, \<open>readFeatures\<close> of the
  MVT format (it allocates the coordinate arrays of the features it returns),
  the constructor \<open>URL\<close> (base address and query parameters, \<open>None\<close> when it throws),
  \<open>toUpperCase\<close> of strings,
  \<open>getProj('EPSG:3857')\<close>, \<open>createXYZ\<close>, the constructor of \<open>OLImageryProvider\<close>, and
  \<open>attributionsFunctionToCredits\<close>.
\<close>

record lib =
  olUseNewCoordinates :: bool
  schemeRectangle :: "TilingScheme \<Rightarrow> Rectangle"
  tileXYToNativeRectangle :: "TilingScheme \<Rightarrow> int \<Rightarrow> int \<Rightarrow> int \<Rightarrow> Rectangle"
  defaultProxyGetURL :: "string \<Rightarrow> getURL"
  readFeatures :: "bytes \<Rightarrow> heap \<Rightarrow> error + RenderFeature list \<times> heap"
  parseURL :: "string \<Rightarrow> (string \<times> (string \<times> string) list) option"
  toUpperCase :: "string \<Rightarrow> string"
  getProj3857 :: Projection
  createXYZ :: "real list \<Rightarrow> TileGrid"
  newOLImageryProvider :: "Map \<Rightarrow> TileWMS \<Rightarrow> Projection option \<Rightarrow> OLImageryProvider"
  attributionsFunctionToCredits :: "string \<Rightarrow> int \<Rightarrow> real list \<Rightarrow> real list \<Rightarrow> Credit list"

section \<open>The provider\<close>

text \<open>
  What the provider does to the outside, in order: a look-up in the tile cache or in
  the feature cache, a call of the tile URL function, a network fetch, a
  \<open>console.trace\<close>, and an event raised on \<open>errorEvent\<close>.
\<close>

datatype event =
    TileCacheLookup string
  | FeatureCacheLookup string
  | TileUrlCall int int int
  | Fetch string headers
  | ConsoleTrace error
  | ErrorEvent string error

text \<open>
  How a promise of the provider comes to its value: \<open>Promise.resolve(canvas)\<close>; the chain
  \<open>fetch(url, {headers}).then(ok).then(arrayBuffer).then(readFeaturesFromBuffer)\<close> of
  \<open>getTileFeatures\<close>; the \<open>.then\<close> of \<open>requestImage\<close> on a promise of features, with
  the \<open>x\<close>, \<open>y\<close> and \<open>z_\<close> its callback closes over.
\<close>

datatype recipe =
    Resolved canvas
  | FetchFeatures string headers
  | ThenRasterize promise int int int

text \<open>
  The provider: the library it runs on, the members of the class, and what the model
  keeps beside them, the promises created so far (a promise of the provider is its
  place in this list) and the effects so far.
\<close>

record MVTWMSImageryProvider =
  lib :: lib
  source' :: VectorTileSource
  projection' :: "Projection option"
  fallbackProj' :: "Projection option"
  styleFunction' :: StyleFunction
  map' :: Map
  shouldRequestNextLevel :: bool
  emptyCanvas' :: canvas
  emptyCanvasPromise' :: promise
  tilingScheme' :: TilingScheme
  ready' :: bool
  rectangle' :: "Rectangle option"
  tileRectangle' :: Rectangle
  minimumLevel' :: int
  featureCache :: "promise LRUCache"
  tileCache :: "promise LRUCache"
  olWmsDelegate' :: "OLImageryProvider option"
  proxy :: "getURL option"
  promises :: "recipe list"
  effects :: "event list"


subsection \<open>Capabilities\<close>

text \<open>
  With a delegate, \<open>maximumLevel\<close>, \<open>minimumLevel\<close> and \<open>hasAlphaChannel\<close> answer
  \<open>delegate.member ?? default\<close>, and \<open>pickFeatures\<close> and \<open>getTileCredits\<close> call the
  delegate's method under the guard \<open>delegate && delegate.method\<close>. The members of an
  \<open>OLImageryProvider\<close> are defined and its methods exist, so \<open>??\<close> answers its left
  operand and the guard holds.
\<close>

definition ready :: "MVTWMSImageryProvider \<Rightarrow> bool" where
  "ready b = ready' b"

definition rectangle :: "MVTWMSImageryProvider \<Rightarrow> Rectangle option" where
  "rectangle b = rectangle' b"

definition tilingScheme :: "MVTWMSImageryProvider \<Rightarrow> TilingScheme" where
  "tilingScheme b = tilingScheme' b"

definition tileWidth :: "MVTWMSImageryProvider \<Rightarrow> real" where
  "tileWidth b =
     (case olWmsDelegate' b of
        Some d \<Rightarrow> delegateTileWidth d
      | None \<Rightarrow>
          (case tileGrid (source' b) of
             Some g \<Rightarrow> (case getTileSize g 0 of SizeArray w h \<Rightarrow> w | Size t0 \<Rightarrow> t0)
           | None \<Rightarrow> 256))"

definition tileHeight :: "MVTWMSImageryProvider \<Rightarrow> real" where
  "tileHeight b =
     (case olWmsDelegate' b of
        Some d \<Rightarrow> delegateTileHeight d
      | None \<Rightarrow>
          (case tileGrid (source' b) of
             Some g \<Rightarrow> (case getTileSize g 0 of SizeArray w h \<Rightarrow> h | Size t0 \<Rightarrow> t0)
           | None \<Rightarrow> 256))"







subsection \<open>Cache keys\<close>

text \<open>
  The key of a tile in both caches is the text of \<open>z\<close>, of \<open>x\<close> and of \<open>y\<close>, in decimal,
  joined by underscores.
\<close>

function showNat :: "nat \<Rightarrow> string" where
  "showNat n =
     (if n < 10 then [''0123456789'' ! n]
      else showNat (n div 10) @ [''0123456789'' ! (n mod 10)])"
  by pat_completeness auto
termination
  by (relation "measure (\<lambda>n. n)") auto

declare showNat.simps [simp del]

definition showInt :: "int \<Rightarrow> string" where
  "showInt i = (if i < 0 then CHR ''-'' # showNat (nat (- i)) else showNat (nat i))"

definition getCacheKey' :: "int \<Rightarrow> int \<Rightarrow> int \<Rightarrow> string" where
  "getCacheKey' z x y = showInt z @ ''_'' @ showInt x @ ''_'' @ showInt y"


subsection \<open>Arrays in the store\<close>

text \<open>
  Reading an array outside its bounds gives \<open>undefined\<close>; writing at or past its end
  lengthens it, the gap being holes; \<open>new Array(n)\<close> is a new array of \<open>n\<close> holes at an
  address that no earlier array has.
\<close>

definition arrayAt :: "heap \<Rightarrow> nat \<Rightarrow> number list" where
  "arrayAt h a = (if a < length h then h ! a else [])"

definition element :: "number list \<Rightarrow> nat \<Rightarrow> number" where
  "element xs i = (if i < length xs then xs ! i else None)"

definition assign :: "number list \<Rightarrow> nat \<Rightarrow> number \<Rightarrow> number list" where
  "assign xs i v =
     (if i < length xs then xs[i := v] else xs @ replicate (i - length xs) None @ [v])"

definition store :: "heap \<Rightarrow> nat \<Rightarrow> nat \<Rightarrow> number \<Rightarrow> heap" where
  "store h a i v = (if a < length h then h[a := assign (h ! a) i v] else h)"

definition newArray :: "heap \<Rightarrow> nat \<Rightarrow> nat \<times> heap" where
  "newArray h n = (length h, h @ [replicate n None])"

definition scaled :: "number \<Rightarrow> real \<Rightarrow> number" where
  "scaled v s = (case v of None \<Rightarrow> None | Some r \<Rightarrow> Some (r * s))"

subsection \<open>Rasterization\<close>

text \<open>
  The loop \<open>for (; i < end; i += 2) out.push([flat[i], flat[i + 1]])\<close>, which
  \<open>flatToCoords_\<close> and the ring loops of \<open>cloneAndScaleGeometry_\<close> share; it returns
  the coordinates pushed and the \<open>i\<close> it stops at.
\<close>

function pushCoords :: "number list \<Rightarrow> nat \<Rightarrow> nat \<Rightarrow> coord list \<times> nat" where
  "pushCoords flat i end =
     (if i < end
      then (let (out, j) = pushCoords flat (i + 2) end
            in ((element flat i, element flat (i + 1)) # out, j))
      else ([], i))"
  by pat_completeness auto
termination
  by (relation "measure (\<lambda>(flat, i, end). end - i)") auto

declare pushCoords.simps [simp del]

fun flatToCoordsFrom :: "number list \<Rightarrow> nat \<Rightarrow> nat list \<Rightarrow> coord list" where
  "flatToCoordsFrom flat i [] = []"
| "flatToCoordsFrom flat i (end # ends) =
     (let (out, j) = pushCoords flat i end in out @ flatToCoordsFrom flat j ends)"

definition flatToCoords' :: "number list \<Rightarrow> nat list \<Rightarrow> coord list" where
  "flatToCoords' flat ends = flatToCoordsFrom flat 0 ends"

text \<open>The ring loop \<open>for (const end of ends) { ring = []; for (; i < end; i += 2) ...; rings.push(ring) }\<close>.\<close>

fun ringsFrom :: "number list \<Rightarrow> nat \<Rightarrow> nat list \<Rightarrow> coord list list" where
  "ringsFrom flat i [] = []"
| "ringsFrom flat i (end # ends) =
     (let (ring, j) = pushCoords flat i end in ring # ringsFrom flat j ends)"

text \<open>
  The loop of \<open>cloneAndScaleGeometry_\<close> that fills the new array \<open>flat\<close> from \<open>src\<close>:
  \<open>for (let i = 0; i < src.length; i += 2) { flat[i] = src[i] * sx; flat[i + 1] = src[i + 1] * sy; }\<close>.
  Both arrays are addresses in the store, and every assignment is a write to the store.
\<close>

definition scaleStep :: "heap \<Rightarrow> nat \<Rightarrow> nat \<Rightarrow> nat \<Rightarrow> real \<Rightarrow> real \<Rightarrow> heap" where
  "scaleStep h src flat i sx sy =
     (let h1 = store h flat i (scaled (element (arrayAt h src) i) sx)
      in store h1 flat (i + 1) (scaled (element (arrayAt h1 src) (i + 1)) sy))"

lemma length_assign: "length (assign xs i v) = max (length xs) (Suc i)"
  by (auto simp: assign_def)

lemma length_store: "length (store h a i v) = length h"
  by (simp add: store_def)

lemma arrayAt_store:
  "arrayAt (store h a i v) a' =
     (if a' = a \<and> a < length h then assign (arrayAt h a) i v else arrayAt h a')"
  by (auto simp: arrayAt_def store_def)

lemma length_arrayAt_scaleStep:
  "i < length (arrayAt h src) \<Longrightarrow>
     length (arrayAt (scaleStep h src flat i sx sy) src) \<le> Suc (length (arrayAt h src))"
  by (auto simp: scaleStep_def Let_def arrayAt_store length_assign length_store)

function scaleLoop :: "heap \<Rightarrow> nat \<Rightarrow> nat \<Rightarrow> nat \<Rightarrow> real \<Rightarrow> real \<Rightarrow> heap" where
  "scaleLoop h src flat i sx sy =
     (if i < length (arrayAt h src)
      then scaleLoop (scaleStep h src flat i sx sy) src flat (i + 2) sx sy
      else h)"
  by pat_completeness auto
termination
proof (relation "measure (\<lambda>(h, src, flat, i, sx, sy). length (arrayAt h src) - i)", goal_cases)
  case 1
  show ?case by simp
next
  case (2 h src flat i sx sy)
  from length_arrayAt_scaleStep [OF 2, of flat sx sy] 2 show ?case
    by simp
qed

declare scaleLoop.simps [simp del]

definition endsOr :: "nat list option \<Rightarrow> number list \<Rightarrow> nat list" where
  "endsOr ends flat = (case ends of Some e \<Rightarrow> e | None \<Rightarrow> [length flat])"

definition cloneAndScaleGeometry' ::
  "heap \<Rightarrow> RenderFeature \<Rightarrow> real \<Rightarrow> real \<Rightarrow> geometry option \<times> heap" where
  "cloneAndScaleGeometry' h f sx sy =
     (case getFlatCoordinates f of
        None \<Rightarrow> (None, h)
      | Some src \<Rightarrow>
          (let (flatRef, h1) = newArray h (length (arrayAt h src));
               h2 = scaleLoop h1 src flatRef 0 sx sy;
               flat = arrayAt h2 flatRef;
               type = getType f;
               endss = getEndss f
           in (Some
                (if type = ''Point'' then Point (element flat 0, element flat 1)
                 else if type = ''MultiPoint'' then MultiPoint (fst (pushCoords flat 0 (length flat)))
                 else if type = ''LineString'' then LineString (flatToCoords' flat (endsOr (getEnds f) flat))
                 else if type = ''Polygon'' then Polygon (ringsFrom flat 0 (endsOr (getEnds f) flat))
                 else if type = ''MultiLineString'' \<and> endss \<noteq> None
                   then MultiLineString (map (\<lambda>ends. flatToCoords' flat ends) (the endss))
                 else if type = ''MultiPolygon'' \<and> endss \<noteq> None
                   then MultiPolygon (map (\<lambda>ends. ringsFrom flat 0 ends) (the endss))
                 else LineString (flatToCoords' flat (endsOr (getEnds f) flat))),
               h2)))"

text \<open>The inner loop \<open>for (const s of arr) { vc.setStyle(s); vc.drawGeometry(g); }\<close>.\<close>

definition drawAll :: "canvas \<Rightarrow> Style list \<Rightarrow> geometry \<Rightarrow> canvas" where
  "drawAll c arr g = c\<lparr>drawn := drawn c @ map (\<lambda>s. (s, g)) arr\<rparr>"

fun rasterizeLoop ::
  "heap \<Rightarrow> canvas \<Rightarrow> RenderFeature list \<Rightarrow> StyleFunction \<Rightarrow> real \<Rightarrow> real \<Rightarrow> real \<Rightarrow> canvas \<times> heap" where
  "rasterizeLoop h c [] styleFn resolution sx sy = (c, h)"
| "rasterizeLoop h c (f # features) styleFn resolution sx sy =
     (case cloneAndScaleGeometry' h f sx sy of
        (None, h1) \<Rightarrow> rasterizeLoop h1 c features styleFn resolution sx sy
      | (Some g, h1) \<Rightarrow>
          (case styleFn f resolution of
             NoStyle \<Rightarrow> rasterizeLoop h1 c features styleFn resolution sx sy
           | OneStyle s \<Rightarrow> rasterizeLoop h1 (drawAll c [s] g) features styleFn resolution sx sy
           | StyleArray arr \<Rightarrow> rasterizeLoop h1 (drawAll c arr g) features styleFn resolution sx sy))"

definition rasterizeFeatures ::
  "MVTWMSImageryProvider \<Rightarrow> heap \<Rightarrow> RenderFeature list \<Rightarrow> StyleFunction \<Rightarrow> real \<Rightarrow> canvas \<times> heap" where
  "rasterizeFeatures b h features styleFn resolution =
     (let MVT_EXTENT = 4096;
          sx = tileWidth b / MVT_EXTENT;
          sy = tileHeight b / MVT_EXTENT;
          c = \<lparr>width = tileWidth b, height = tileHeight b, drawn = []\<rparr>
      in rasterizeLoop h c features styleFn resolution sx sy)"


subsection \<open>Delegation to the stock imagery provider\<close>

definition truthy :: "string option \<Rightarrow> bool" where
  "truthy s = (case s of None \<Rightarrow> False | Some t \<Rightarrow> t \<noteq> [])"

definition truthyProxy :: "proxySetting option \<Rightarrow> bool" where
  "truthyProxy p = (case p of None \<Rightarrow> False | Some (ProxyString t) \<Rightarrow> t \<noteq> [] | Some q \<Rightarrow> True)"

text \<open>The operator \<open>a || b\<close> on strings that may be missing, and \<open>a ?? b\<close>.\<close>

definition orElse :: "string option \<Rightarrow> string option \<Rightarrow> string option" where
  "orElse a b = (if truthy a then a else b)"

definition coalesce :: "'a option \<Rightarrow> 'a option \<Rightarrow> 'a option" where
  "coalesce a b = (case a of None \<Rightarrow> b | Some v \<Rightarrow> Some v)"

definition getAuthHeadersFn' :: "MVTWMSImageryProvider \<Rightarrow> headersFunction option" where
  "getAuthHeadersFn' b =
     coalesce (get_olcs_authHeaders (source' b)) (olcs_authHeaders (source' b))"

text \<open>
  \<open>cloneTileWms_\<close> reads the cross-origin setting of the base source with the optional
  call \<open>src.getCrossOrigin?.()\<close>. A \<open>TileWMS\<close> has no method of that name, so the call
  answers \<open>undefined\<close> whatever the source was constructed with.
\<close>

definition getCrossOrigin :: "TileWMS \<Rightarrow> string option" where
  "getCrossOrigin src = None"

definition cloneTileWms' ::
  "MVTWMSImageryProvider \<Rightarrow> TileWMS \<Rightarrow> (string \<Rightarrow> paramValue option) \<Rightarrow> TileWMS" where
  "cloneTileWms' b src overrides =
     (let url = wmsUrl src;
          params = wmsParams src ++ overrides;
          olcs_proxy = coalesce (get_olcs_proxy (source' b)) (get_olcs_proxy_dot (source' b));
          fromBase = wmsAuthHeaders src;
          fromVT = getAuthHeadersFn' b
      in \<lparr>wmsUrl = url,
          wmsParams = params,
          wmsProjection = wmsProjection src,
          wmsTileGrid = wmsTileGrid src,
          wmsCrossOrigin = coalesce (getCrossOrigin src) (Some ''anonymous''),
          wmsServerType =
            orElse (orElse (wmsServerType src) (wmsGetServerType src)) (Some ''geoserver''),
          wmsGetServerType = None,
          wmsTransition = 0,
          wmsAttributions = (if truthy (wmsAttributions src) then wmsAttributions src else None),
          wmsTileLoadFunction =
            (if truthy (wmsTileLoadFunction src) then wmsTileLoadFunction src else None),
          wmsOlcsProxy = (if truthyProxy olcs_proxy then olcs_proxy else None),
          wmsAuthHeaders = coalesce fromBase fromVT\<rparr>)"

definition deriveTileWmsFromVector' :: "MVTWMSImageryProvider \<Rightarrow> TileWMS option" where
  "deriveTileWmsFromVector' b =
     (let vt = source' b;
          proj = (case coalesce (getProjection vt) (projection' b) of
                    Some p \<Rightarrow> p
                  | None \<Rightarrow> getProj3857 (lib b));
          grid = (case coalesce (tileGrid vt) (getTileGridForProjection vt proj) of
                    Some g \<Rightarrow> g
                  | None \<Rightarrow> createXYZ (lib b) (getExtent proj))
      in case getTileUrlFunction vt of
           None \<Rightarrow> None
         | Some urlFn \<Rightarrow>
             (case urlFn (0, 0, 0) 1 proj of
                Inl e \<Rightarrow> None
              | Inr sample \<Rightarrow>
                  if \<not> truthy sample then None
                  else
                    (case parseURL (lib b) (the sample) of
                       None \<Rightarrow> None
                     | Some (baseUrl, searchParams) \<Rightarrow>
                         (let parsed = foldl (\<lambda>m (k, v). m(toUpperCase (lib b) k \<mapsto> PString v))
                                         Map.empty searchParams;
                              params = (parsed ++ (case params' vt of Some p \<Rightarrow> p | None \<Rightarrow> Map.empty))
                                         (''TILED'' \<mapsto> PBool True);
                              olcs_proxy = coalesce (get_olcs_proxy vt) (get_olcs_proxy_dot vt);
                              tlf = getTileLoadFunction vt
                          in Some
                               \<lparr>wmsUrl = Some baseUrl,
                                wmsParams = params,
                                wmsProjection = Some proj,
                                wmsTileGrid = Some grid,
                                wmsCrossOrigin = coalesce (get_crossOrigin vt) (Some ''anonymous''),
                                wmsServerType =
                                  orElse (orElse (serverType' vt) (get_serverType vt)) (Some ''geoserver''),
                                wmsGetServerType = None,
                                wmsTransition = 0,
                                wmsAttributions = None,
                                wmsTileLoadFunction = (if truthy tlf then tlf else None),
                                wmsOlcsProxy = (if truthyProxy olcs_proxy then olcs_proxy else None),
                                wmsAuthHeaders = getAuthHeadersFn' b\<rparr>))))"

definition tryInitOlWmsDelegate' :: "MVTWMSImageryProvider \<Rightarrow> MVTWMSImageryProvider" where
  "tryInitOlWmsDelegate' b =
     (let fmt = get_olcs_wmsFormat (source' b)
      in if \<not> truthy fmt then b
         else
           (let companion = coalesce (get_olcs_wmsCompanion (source' b)) (wmsCompanion (source' b));
                base = (case companion of Some c \<Rightarrow> Some c | None \<Rightarrow> deriveTileWmsFromVector' b)
            in case base of
                 None \<Rightarrow> b
               | Some base \<Rightarrow>
                   (let overrides = [''FORMAT'' \<mapsto> PString (the fmt), ''TILED'' \<mapsto> PBool True];
                        overrides = (if the fmt \<noteq> ''image/jpeg''
                                     then overrides(''TRANSPARENT'' \<mapsto> PBool True) else overrides);
                        wmsFor3D = cloneTileWms' b base overrides;
                        d = newOLImageryProvider (lib b) (map' b) wmsFor3D (fallbackProj' b)
                    in b\<lparr>olWmsDelegate' := Some d,
                         tilingScheme' := delegateTilingScheme d,
                         rectangle' := coalesce (delegateRectangle d) (rectangle' b),
                         ready' := True\<rparr>)))"

subsection \<open>Becoming ready\<close>

text \<open>
  Modelled from the spec: \<open>getSourceProjection\<close> (\<open>./util\<close>) is not among the sources; the
  provider reads the projection of the source with it, \<open>getProjection()\<close>.
\<close>

definition getSourceProjection :: "VectorTileSource \<Rightarrow> Projection option" where
  "getSourceProjection s = getProjection s"

text \<open>
  The callback of \<open>forEachTileCoord\<close> overwrites both counts at every tile coordinate
  it is handed.
\<close>

definition levelZeroTiles :: "VectorTileSource \<Rightarrow> Projection \<Rightarrow> int \<times> int" where
  "levelZeroTiles s proj =
     (case tileGrid s of
        None \<Rightarrow> (1, 1)
      | Some g \<Rightarrow>
          foldl (\<lambda>options (zoom, xIndex, yIndex). (xIndex + 1, yIndex + 1)) (1, 1)
            (forEachTileCoord g (getExtent proj) 0))"

text \<open>
  \<open>handleSourceChanged_\<close> returns the exception that leaves it, if any, and the provider
  as it is then: without a projection, \<open>this.projection_.getExtent()\<close> and
  \<open>this.projection_.getCode()\<close> throw a \<open>TypeError\<close>.
\<close>

definition handleSourceChanged' :: "MVTWMSImageryProvider \<Rightarrow> error option \<times> MVTWMSImageryProvider" where
  "handleSourceChanged' b =
     (if \<not> ready' b \<and> getState (source' b) = ''ready''
      then
        (let b1 = b\<lparr>projection' := coalesce (getSourceProjection (source' b)) (fallbackProj' b)\<rparr>
         in case projection' b1 of
              None \<Rightarrow> (Some (Thrown ''TypeError''), b1)
            | Some proj \<Rightarrow>
                (let options = levelZeroTiles (source' b1) proj
                 in case (if getCode proj = ''EPSG:4326''
                          then Some (fst options = 1 \<and> snd options = 1,
                                     GeographicTilingScheme (Some options))
                          else if getCode proj = ''EPSG:3857''
                          then Some (False, WebMercatorTilingScheme (Some options))
                          else None) of
                      None \<Rightarrow> (None, b1)
                    | Some (nextLevel, scheme) \<Rightarrow>
                        (let b2 = b1\<lparr>shouldRequestNextLevel := nextLevel, tilingScheme' := scheme\<rparr>;
                             b3 = (case rectangle' b2 of
                                     None \<Rightarrow> b2\<lparr>rectangle' := Some (schemeRectangle (lib b2) (tilingScheme b2))\<rparr>
                                   | Some r \<Rightarrow> b2);
                             b4 = b3\<lparr>ready' := True\<rparr>
                         in (None, tryInitOlWmsDelegate' b4))))
      else (None, b))"


subsection \<open>Construction\<close>

record MVTWMSOptions =
  optRectangle :: "Rectangle option"
  optStyleFunction :: "StyleFunction option"
  optCacheSize :: "nat option"
  optFeatureCache :: "promise LRUCache option"
  optMinimumLevel :: "int option"

definition createEmptyCanvas :: canvas where
  "createEmptyCanvas = \<lparr>width = 1, height = 1, drawn = []\<rparr>"

text \<open>The module's default style: a blue stroke of width 2.\<close>

definition defaultStyles :: "Style list" where
  "defaultStyles = [''stroke blue 2'']"

definition newLRUCache :: "nat \<Rightarrow> 'v LRUCache" where
  "newLRUCache n = \<lparr>highWaterMark = n, entries = []\<rparr>"

text \<open>
  The constructor, up to its last statement. The field initialisers run first: the empty
  canvas and the promise resolved with it, which is the first promise of the provider.
\<close>

definition initialise ::
  "lib \<Rightarrow> Map \<Rightarrow> VectorTileSource \<Rightarrow> Projection option \<Rightarrow> MVTWMSOptions
     \<Rightarrow> MVTWMSImageryProvider" where
  "initialise l olMap source opt_fallbackProj options =
     (let scheme0 = WebMercatorTilingScheme None;
          cacheSize = (case optCacheSize options of Some n \<Rightarrow> n | None \<Rightarrow> 50);
          p = get_olcs_proxy_dot source
      in \<lparr>lib = l,
          source' = source,
          projection' = None,
          fallbackProj' = opt_fallbackProj,
          styleFunction' =
            (case optStyleFunction options of
               Some f \<Rightarrow> f
             | None \<Rightarrow> (\<lambda>f resolution. StyleArray defaultStyles)),
          map' = olMap,
          shouldRequestNextLevel = False,
          emptyCanvas' = createEmptyCanvas,
          emptyCanvasPromise' = Promise 0,
          tilingScheme' = scheme0,
          ready' = False,
          rectangle' = coalesce (optRectangle options) (Some (schemeRectangle l scheme0)),
          tileRectangle' = (0, 0, 0, 0),
          minimumLevel' = (case optMinimumLevel options of Some m \<Rightarrow> m | None \<Rightarrow> 0),
          featureCache =
            (case optFeatureCache options of Some c \<Rightarrow> c | None \<Rightarrow> newLRUCache cacheSize),
          tileCache = newLRUCache cacheSize,
          olWmsDelegate' = None,
          proxy =
            (if truthyProxy p
             then (case p of
                     Some (ProxyFunction g) \<Rightarrow> Some g
                   | Some (ProxyString t) \<Rightarrow> Some (defaultProxyGetURL l t)
                   | _ \<Rightarrow> None)
             else None),
          promises = [Resolved createEmptyCanvas],
          effects = []\<rparr>)"

text \<open>
  The constructor: its last statement calls \<open>handleSourceChanged_\<close> once, which is also
  the handler it registers for \<open>'change'\<close>.
\<close>

definition construct ::
  "lib \<Rightarrow> Map \<Rightarrow> VectorTileSource \<Rightarrow> Projection option \<Rightarrow> MVTWMSOptions
     \<Rightarrow> error option \<times> MVTWMSImageryProvider" where
  "construct l olMap source opt_fallbackProj options =
     handleSourceChanged' (initialise l olMap source opt_fallbackProj options)"

subsection \<open>Requesting a tile\<close>

definition record_event :: "MVTWMSImageryProvider \<Rightarrow> event \<Rightarrow> MVTWMSImageryProvider" where
  "record_event b e = b\<lparr>effects := effects b @ [e]\<rparr>"

text \<open>
  The look-up that opens both functions:
  \<open>cache.containsKey(cacheKey) ? cache.get(cacheKey) : undefined\<close>.
\<close>

definition lookup :: "'v LRUCache \<Rightarrow> string \<Rightarrow> 'v option \<times> 'v LRUCache" where
  "lookup c k = (if containsKey c k then get c k else (None, c))"

text \<open>
  \<open>getTileFeatures\<close> returns the promise of the features, or the exception thrown by
  the function stored under \<open>'olcs_authHeaders'\<close>, and the provider as it is then.
\<close>

definition getTileFeatures ::
  "MVTWMSImageryProvider \<Rightarrow> string \<Rightarrow> int \<Rightarrow> int \<Rightarrow> int
     \<Rightarrow> (error + promise) \<times> MVTWMSImageryProvider" where
  "getTileFeatures b url z x y =
     (let cacheKey = getCacheKey' z x y;
          b1 = record_event b (FeatureCacheLookup cacheKey);
          (hit, c) = lookup (featureCache b1) cacheKey;
          b2 = b1\<lparr>featureCache := c\<rparr>
      in case hit of
           Some promise \<Rightarrow> (Inr promise, b2)
         | None \<Rightarrow>
             (case (case get_olcs_authHeaders (source' b2) of
                      Some headersFn \<Rightarrow> headersFn (z, x, y)
                    | None \<Rightarrow> Inr None) of
                Inl e \<Rightarrow> (Inl e, b2)
              | Inr headers \<Rightarrow>
                  (let hs = (case headers of Some h \<Rightarrow> h | None \<Rightarrow> []);
                       promise = Promise (length (promises b2));
                       b3 = record_event (b2\<lparr>promises := promises b2 @ [FetchFeatures url hs]\<rparr>)
                              (Fetch url hs)
                   in (Inr promise,
                       b3\<lparr>featureCache := setAndExpire (featureCache b3) cacheKey promise\<rparr>))))"

text \<open>The \<open>catch\<close> block of \<open>requestImage\<close>; the function then returns \<open>undefined\<close>.\<close>

definition catch :: "MVTWMSImageryProvider \<Rightarrow> error \<Rightarrow> promise option \<times> MVTWMSImageryProvider" where
  "catch b e =
     (None, record_event (record_event b (ConsoleTrace e))
              (ErrorEvent ''could not render pbf to tile'' e))"

text \<open>The URL of the tile: the tile URL function of the source, then the proxy, if any.\<close>

definition tileUrl ::
  "MVTWMSImageryProvider \<Rightarrow> tileUrlFunction \<Rightarrow> Projection \<Rightarrow> int \<Rightarrow> int \<Rightarrow> int
     \<Rightarrow> error + string option" where
  "tileUrl b tileUrlFunction proj z' x y =
     (let y' = (if olUseNewCoordinates (lib b) then y else - y - 1)
      in case tileUrlFunction (z', x, y') 1 proj of
           Inl e \<Rightarrow> Inl e
         | Inr url \<Rightarrow> (case proxy b of Some getURL \<Rightarrow> getURL url | None \<Rightarrow> Inr url))"

text \<open>
  The statements of \<open>requestImage\<close> inside \<open>if (tileUrlFunction && this.projection_)\<close>,
  with the \<open>catch\<close> block that an exception thrown among them reaches.
\<close>

definition loadTile ::
  "MVTWMSImageryProvider \<Rightarrow> string \<Rightarrow> tileUrlFunction \<Rightarrow> Projection \<Rightarrow> int \<Rightarrow> int \<Rightarrow> int
     \<Rightarrow> promise option \<times> MVTWMSImageryProvider" where
  "loadTile b cacheKey tileUrlFunction proj x y z' =
     (let b1 = record_event b (TileUrlCall z' x y)
      in case tileUrl b1 tileUrlFunction proj z' x y of
           Inl e \<Rightarrow> catch b1 e
         | Inr url \<Rightarrow>
             if truthy url
             then
               (case getTileFeatures b1 (the url) z' x y of
                  (Inl e, b2) \<Rightarrow> catch b2 e
                | (Inr features, b2) \<Rightarrow>
                    (let promise = Promise (length (promises b2));
                         b3 = b2\<lparr>promises := promises b2 @ [ThenRasterize features x y z']\<rparr>
                     in (Some promise,
                         b3\<lparr>tileCache := setAndExpire (tileCache b3) cacheKey promise\<rparr>)))
             else
               (let promise = emptyCanvasPromise' b1
                in (Some promise,
                    b1\<lparr>tileCache := setAndExpire (tileCache b1) cacheKey promise\<rparr>)))"

definition requestImage ::
  "MVTWMSImageryProvider \<Rightarrow> int \<Rightarrow> int \<Rightarrow> int \<Rightarrow> string option
     \<Rightarrow> promise option \<times> MVTWMSImageryProvider" where
  "requestImage b x y z request =
     (case olWmsDelegate' b of
        Some d \<Rightarrow> (delegateRequestImage d x y z request, b)
      | None \<Rightarrow>
          (let z' = (if shouldRequestNextLevel b then z + 1 else z)
           in if z < minimumLevel' b then (Some (emptyCanvasPromise' b), b)
              else
                (let cacheKey = getCacheKey' z' x y;
                     b1 = record_event b (TileCacheLookup cacheKey);
                     (hit, c) = lookup (tileCache b1) cacheKey;
                     b2 = b1\<lparr>tileCache := c\<rparr>
                 in case hit of
                      Some promise \<Rightarrow> (Some promise, b2)
                    | None \<Rightarrow>
                        (case (getTileUrlFunction (source' b2), projection' b2) of
                           (Some tileUrlFunction, Some proj) \<Rightarrow>
                             loadTile b2 cacheKey tileUrlFunction proj x y z'
                         | _ \<Rightarrow> (None, b2)))))"

subsection \<open>Settling the promises\<close>

text \<open>
  What the network answers to \<open>fetch(url, {headers})\<close>: the fetch fails, or there is a
  response with its \<open>ok\<close> flag and the outcome of \<open>arrayBuffer()\<close> (\<open>None\<close> when that
  rejects).
\<close>

datatype fetchResult = NetworkFailure | Response bool "bytes option"

type_synonym network = "string \<Rightarrow> headers \<Rightarrow> fetchResult"

datatype 'a settled = Fulfilled 'a | Rejected string

definition readFeaturesFromBuffer ::
  "MVTWMSImageryProvider \<Rightarrow> heap \<Rightarrow> bytes \<Rightarrow> error + RenderFeature list \<times> heap" where
  "readFeaturesFromBuffer b h buffer = readFeatures (lib b) buffer h"

definition recipeOf :: "MVTWMSImageryProvider \<Rightarrow> promise \<Rightarrow> recipe option" where
  "recipeOf b p =
     (case p of
        Promise n \<Rightarrow> (if n < length (promises b) then Some (promises b ! n) else None)
      | DelegatePromise n \<Rightarrow> None)"

text \<open>
  The chain of \<open>getTileFeatures\<close>:
  \<open>fetch(url, {headers}).then(r => (r.ok ? r : Promise.reject(r))).then(r => r.arrayBuffer())
   .then(buffer => this.readFeaturesFromBuffer(buffer))\<close>. The result is \<open>None\<close> for a promise
  that is not one of features.
\<close>

definition settleFeatures ::
  "MVTWMSImageryProvider \<Rightarrow> network \<Rightarrow> heap \<Rightarrow> promise
     \<Rightarrow> (RenderFeature list settled \<times> heap) option" where
  "settleFeatures b net h p =
     (case recipeOf b p of
        Some (FetchFeatures url hs) \<Rightarrow>
          Some
            (case net url hs of
               NetworkFailure \<Rightarrow> (Rejected ''fetch failed'', h)
             | Response ok body \<Rightarrow>
                 if \<not> ok then (Rejected ''response not ok'', h)
                 else
                   (case body of
                      None \<Rightarrow> (Rejected ''arrayBuffer failed'', h)
                    | Some buffer \<Rightarrow>
                        (case readFeaturesFromBuffer b h buffer of
                           Inl (Thrown m) \<Rightarrow> (Rejected m, h)
                         | Inr (features, h1) \<Rightarrow> (Fulfilled features, h1))))
      | _ \<Rightarrow> None)"

text \<open>
  The promise that \<open>requestImage\<close> returns on the vector path: the placeholder, or the
  \<open>.then\<close> on the promise of features, whose callback runs only when that promise is
  fulfilled and otherwise passes the rejection on. The callback writes
  \<open>this.tileRectangle_\<close>, computes the resolution and rasterizes.
\<close>

definition settleTile ::
  "MVTWMSImageryProvider \<Rightarrow> network \<Rightarrow> heap \<Rightarrow> promise
     \<Rightarrow> (canvas settled \<times> heap \<times> MVTWMSImageryProvider) option" where
  "settleTile b net h p =
     (case recipeOf b p of
        Some (Resolved c) \<Rightarrow> Some (Fulfilled c, h, b)
      | Some (ThenRasterize features x y z') \<Rightarrow>
          (case settleFeatures b net h features of
             None \<Rightarrow> None
           | Some (Rejected r, h1) \<Rightarrow> Some (Rejected r, h1, b)
           | Some (Fulfilled fs, h1) \<Rightarrow>
               (let b1 = b\<lparr>tileRectangle' :=
                            tileXYToNativeRectangle (lib b) (tilingScheme b) x y z'\<rparr>;
                    resolution =
                      (if map_option getCode (projection' b1) = Some ''EPSG:3857''
                       then (let worldMeters = 2 * pi * 6378137
                             in (worldMeters / tileWidth b1) / (2 powr real_of_int z'))
                       else (let worldRadians = 2 * pi
                             in (worldRadians / tileWidth b1) / (2 powr real_of_int z')));
                    (c, h2) = rasterizeFeatures b1 h1 fs (styleFunction' b1) resolution
                in Some (Fulfilled c, h2, b1)))
      | _ \<Rightarrow> None)"

subsection \<open>The life of a provider\<close>

text \<open>
  What happens to a provider after its construction: the source changes and fires
  \<open>'change'\<close>, the consumer requests a tile, or a promise settles.
\<close>

datatype action =
    SourceChange VectorTileSource
  | RequestImage int int int "string option"
  | Settle promise network heap

definition step :: "MVTWMSImageryProvider \<Rightarrow> action \<Rightarrow> MVTWMSImageryProvider" where
  "step b a =
     (case a of
        SourceChange s \<Rightarrow> snd (handleSourceChanged' (b\<lparr>source' := s\<rparr>))
      | RequestImage x y z request \<Rightarrow> snd (requestImage b x y z request)
      | Settle p net h \<Rightarrow>
          (case settleTile b net h p of Some (r, h1, b1) \<Rightarrow> b1 | None \<Rightarrow> b))"

definition run :: "MVTWMSImageryProvider \<Rightarrow> action list \<Rightarrow> MVTWMSImageryProvider" where
  "run b as = foldl step b as"

definition fetches :: "MVTWMSImageryProvider \<Rightarrow> event list" where
  "fetches b = filter (\<lambda>e. case e of Fetch url hs \<Rightarrow> True | _ \<Rightarrow> False) (effects b)"

section \<open>The second copy of the class: decoding\<close>

text \<open>
  The sources hold a second copy of the class, \<open>src/src/olcs/MVTWMSImageryProvider.ts\<close>.
  It has no delegate and no \<open>cloneAndScaleGeometry_\<close>: its \<open>readFeaturesFromBuffer\<close>
  scales the coordinates, and its \<open>rasterizeFeatures\<close> draws the features as they are.
  What is modelled of this copy has a name that ends in \<open>2\<close>. The constant \<open>VERSION\<close>
  of \<open>ol/util.js\<close>, which the copy calls \<open>OL_VERSION\<close>, and \<open>readFeatures\<close> of the MVT
  format with the options the copy passes are taken as parameters.
\<close>

record readOptions =
  optExtent :: "real list"
  dataProjection :: "Projection option"
  featureProjection :: "Projection option"

record lib2 =
  OL_VERSION :: string
  readFeatures2 :: "readOptions option \<Rightarrow> bytes \<Rightarrow> heap \<Rightarrow> error + RenderFeature list \<times> heap"

text \<open>The comparison \<open>s <= t\<close> of two strings: character by character, a prefix first.\<close>

fun stringLe :: "string \<Rightarrow> string \<Rightarrow> bool" where
  "stringLe [] t = True"
| "stringLe (c # s) [] = False"
| "stringLe (c # s) (d # t) = ((of_char c :: nat) < of_char d \<or> (c = d \<and> stringLe s t))"

definition tileWidth2 :: "MVTWMSImageryProvider \<Rightarrow> real" where
  "tileWidth2 b =
     (case tileGrid (source' b) of
        Some g \<Rightarrow> (case getTileSize g 0 of SizeArray w h \<Rightarrow> w | Size tileSizeAtZoom0 \<Rightarrow> tileSizeAtZoom0)
      | None \<Rightarrow> 256)"

definition subtractedFrom :: "number \<Rightarrow> real \<Rightarrow> number" where
  "subtractedFrom v w = (case v of None \<Rightarrow> None | Some r \<Rightarrow> Some (w - r))"

lemma length_arrayAt_store:
  "i < length (arrayAt h a) \<Longrightarrow> length (arrayAt (store h a i v) a) = length (arrayAt h a)"
  by (auto simp: arrayAt_def store_def length_assign split: if_splits)

text \<open>
  The loop over one coordinate array,
  \<open>for (let i = 0; i < flatCoordinates.length; ++i) { flatCoordinates[i] *= scaleFactor;
   if (flip) flatCoordinates[i] = this.tileWidth - flatCoordinates[i];
   if (OL_VERSION <= '6.4.4') flip = !flip; }\<close>.
  The array is the feature's own, at its address in the store.
\<close>

function scaleInPlace :: "heap \<Rightarrow> nat \<Rightarrow> nat \<Rightarrow> real \<Rightarrow> real \<Rightarrow> bool \<Rightarrow> bool \<Rightarrow> heap" where
  "scaleInPlace h flatCoordinates i scaleFactor w legacy flip =
     (if i < length (arrayAt h flatCoordinates)
      then
        (let h1 = store h flatCoordinates i (scaled (element (arrayAt h flatCoordinates) i) scaleFactor);
             h2 = (if flip
                   then store h1 flatCoordinates i
                          (subtractedFrom (element (arrayAt h1 flatCoordinates) i) w)
                   else h1)
         in scaleInPlace h2 flatCoordinates (i + 1) scaleFactor w legacy
              (if legacy then \<not> flip else flip))
      else h)"
  by pat_completeness auto
termination
  by (relation "measure (\<lambda>(h, a, i, s, w, legacy, flip). length (arrayAt h a) - i)")
     (auto simp: length_arrayAt_store)

declare scaleInPlace.simps [simp del]

text \<open>
  \<open>features.forEach(...)\<close>: a feature without coordinate array makes
  \<open>flatCoordinates.length\<close> throw.
\<close>

fun scaleEach ::
  "heap \<Rightarrow> RenderFeature list \<Rightarrow> real \<Rightarrow> real \<Rightarrow> bool \<Rightarrow> error option \<times> heap" where
  "scaleEach h [] scaleFactor w legacy = (None, h)"
| "scaleEach h (f # features) scaleFactor w legacy =
     (case getFlatCoordinates f of
        None \<Rightarrow> (Some (Thrown ''TypeError''), h)
      | Some flatCoordinates \<Rightarrow>
          scaleEach (scaleInPlace h flatCoordinates 0 scaleFactor w legacy False) features
            scaleFactor w legacy)"

definition readFeaturesFromBuffer2 ::
  "lib2 \<Rightarrow> MVTWMSImageryProvider \<Rightarrow> heap \<Rightarrow> bytes \<Rightarrow> (error + RenderFeature list) \<times> heap" where
  "readFeaturesFromBuffer2 l b h buffer =
     (let legacy = stringLe (OL_VERSION l) ''6.4.4'';
          options = (if legacy
                     then Some \<lparr>optExtent = [0, 0, 4096, 4096], dataProjection = projection' b,
                                featureProjection = projection' b\<rparr>
                     else None)
      in case readFeatures2 l options buffer h of
           Inl e \<Rightarrow> (Inl e, h)
         | Inr (features, h1) \<Rightarrow>
             (let scaleFactor = tileWidth2 b / 4096
              in case scaleEach h1 features scaleFactor (tileWidth2 b) legacy of
                   (Some e, h2) \<Rightarrow> (Inl e, h2)
                 | (None, h2) \<Rightarrow> (Inr features, h2)))"

section \<open>Example providers\<close>

text \<open>
  A library, a map and a source to run the provider on: the source is ready, in
  web-mercator, without a tile grid, and answers every tile with one URL; the decoder
  returns one line from one corner of the local extent to the other. The stock
  imagery provider built for a WMS source serves tiles of 512 pixels and leaves its
  maximum level undefined.
\<close>

definition exProjection :: "string \<Rightarrow> Projection" where
  "exProjection code = \<lparr>getCode = code, getExtent = [-180, -90, 180, 90]\<rparr>"

definition exDelegate :: OLImageryProvider where
  "exDelegate =
     \<lparr>delegateTileWidth = 512,
      delegateTileHeight = 512,
      delegateMaximumLevel = 18,
      delegateMinimumLevel = 0,
      delegateTileDiscardPolicy = None,
      delegateHasAlphaChannel = True,
      delegateTilingScheme = WebMercatorTilingScheme (Some (1, 1)),
      delegateRectangle = None,
      delegateRequestImage = (\<lambda>x y z request. Some (DelegatePromise 7)),
      delegateGetTileCredits = (\<lambda>x y z. [''wms'']),
      delegatePickFeatures = (\<lambda>x y z longitude latitude. None)\<rparr>"

definition exLib :: lib where
  "exLib =
     \<lparr>olUseNewCoordinates = True,
      schemeRectangle = (\<lambda>s. (-180, -90, 180, 90)),
      tileXYToNativeRectangle = (\<lambda>s x y z. (0, 0, 1, 1)),
      defaultProxyGetURL = (\<lambda>p url. Inr (map_option (\<lambda>u. p @ ''?'' @ u) url)),
      readFeatures = (\<lambda>buffer h.
        Inr ([\<lparr>getFlatCoordinates = Some (length h), getType = ''LineString'',
               getEnds = None, getEndss = None\<rparr>],
             h @ [[Some 0, Some 0, Some 4096, Some 4096]])),
      parseURL = (\<lambda>u. Some (u, [])),
      toUpperCase = (\<lambda>k. k),
      getProj3857 = exProjection ''EPSG:3857'',
      createXYZ = (\<lambda>extent. \<lparr>getTileSize = (\<lambda>z. Size 256), getMaxZoom = 20,
                               forEachTileCoord = (\<lambda>extent z. [(0, 0, 0)])\<rparr>),
      newOLImageryProvider = (\<lambda>m wms proj. exDelegate),
      attributionsFunctionToCredits = (\<lambda>a zoom center extent. [a])\<rparr>"

definition exMap :: Map where
  "exMap = \<lparr>calculateExtent = [-180, -90, 180, 90], getCenter = [0, 0]\<rparr>"

definition exSource :: VectorTileSource where
  "exSource =
     \<lparr>getState = ''ready'',
      getProjection = Some (exProjection ''EPSG:3857''),
      tileGrid = None,
      getTileGridForProjection = (\<lambda>p. None),
      getTileUrlFunction = Some (\<lambda>(z, x, y) pixelRatio p. Inr (Some ''https://tiles.example/t.pbf'')),
      getAttributions = None,
      getTileLoadFunction = None,
      params' = None,
      serverType' = None,
      wmsCompanion = None,
      olcs_authHeaders = None,
      get_olcs_proxy_dot = None,
      get_olcs_proxy = None,
      get_olcs_authHeaders = None,
      get_olcs_wmsFormat = None,
      get_olcs_wmsCompanion = None,
      get_crossOrigin = None,
      get_serverType = None\<rparr>"

definition exOptions :: MVTWMSOptions where
  "exOptions =
     \<lparr>optRectangle = None, optStyleFunction = None, optCacheSize = Some 2,
      optFeatureCache = None, optMinimumLevel = Some 2\<rparr>"

text \<open>
  Providers as the constructor leaves them: on the vector path, with a projection that
  is not supported, and with the WMS format set on the source; and providers before the
  constructor's call of \<open>handleSourceChanged_\<close>, by the code of the projection.
\<close>

definition exVector :: MVTWMSImageryProvider where
  "exVector = snd (construct exLib exMap exSource None exOptions)"

definition exUnsupported :: MVTWMSImageryProvider where
  "exUnsupported =
     snd (construct exLib exMap (exSource\<lparr>getProjection := Some (exProjection ''EPSG:9999'')\<rparr>)
            None exOptions)"

definition exDelegated :: MVTWMSImageryProvider where
  "exDelegated =
     snd (construct exLib exMap (exSource\<lparr>get_olcs_wmsFormat := Some ''image/png''\<rparr>)
            None exOptions)"



text \<open>
  A source whose URL names the tile, and the provider constructed on it with caches of
  a given size.
\<close>

definition exKeyedSource :: VectorTileSource where
  "exKeyedSource =
     exSource\<lparr>getTileUrlFunction :=
       Some (\<lambda>(z, x, y) pixelRatio p. Inr (Some (''https://tiles.example/'' @ getCacheKey' z x y)))\<rparr>"

definition exSmall :: "nat \<Rightarrow> MVTWMSImageryProvider" where
  "exSmall n = snd (construct exLib exMap exKeyedSource None (exOptions\<lparr>optCacheSize := Some n\<rparr>))"

text \<open>
  A decoder that fails; and a store that holds one coordinate array, from one corner of
  the local extent to the other, with the line feature that refers to it.
\<close>

definition exBadDecoder :: "bytes \<Rightarrow> heap \<Rightarrow> error + RenderFeature list \<times> heap" where
  "exBadDecoder buffer h = Inl (Thrown ''unexpected end of tile'')"

definition exFeature :: RenderFeature where
  "exFeature =
     \<lparr>getFlatCoordinates = Some 0, getType = ''LineString'', getEnds = None, getEndss = None\<rparr>"

definition exHeap :: heap where
  "exHeap = [[Some 0, Some 0, Some 4096, Some 4096]]"

text \<open>The library of the second copy: a version of OpenLayers after 6.4.4, and the same decoder.\<close>

definition exLib2 :: lib2 where
  "exLib2 = \<lparr>OL_VERSION = ''7.0.0'', readFeatures2 = (\<lambda>options. readFeatures exLib)\<rparr>"

section \<open>Vocabulary of the properties\<close>

text \<open>
  \<open>preserved b b1\<close>: from \<open>b\<close> to \<open>b1\<close> nothing has changed but the two caches and the
  scratch rectangle, and the promises and the effects have only grown.
\<close>

definition preserved :: "MVTWMSImageryProvider \<Rightarrow> MVTWMSImageryProvider \<Rightarrow> bool" where
  "preserved b b1 =
     (lib b1 = lib b \<and> source' b1 = source' b \<and> projection' b1 = projection' b
      \<and> fallbackProj' b1 = fallbackProj' b \<and> styleFunction' b1 = styleFunction' b
      \<and> map' b1 = map' b \<and> shouldRequestNextLevel b1 = shouldRequestNextLevel b
      \<and> emptyCanvas' b1 = emptyCanvas' b \<and> emptyCanvasPromise' b1 = emptyCanvasPromise' b
      \<and> tilingScheme' b1 = tilingScheme' b \<and> ready' b1 = ready' b
      \<and> rectangle' b1 = rectangle' b
      \<and> minimumLevel' b1 = minimumLevel' b \<and> olWmsDelegate' b1 = olWmsDelegate' b
      \<and> proxy b1 = proxy b
      \<and> take (length (promises b)) (promises b1) = promises b
      \<and> take (length (effects b)) (effects b1) = effects b)"

text \<open>
  The source reports a projection, and it is neither EPSG:4326 nor EPSG:3857; and a list
  of actions in which every change of the source leaves it such.
\<close>

definition unsupportedProjection :: "VectorTileSource \<Rightarrow> bool" where
  "unsupportedProjection s =
     (case getSourceProjection s of
        Some p \<Rightarrow> getCode p \<noteq> ''EPSG:4326'' \<and> getCode p \<noteq> ''EPSG:3857''
      | None \<Rightarrow> False)"

definition onlyUnsupported :: "action list \<Rightarrow> bool" where
  "onlyUnsupported as =
     list_all (\<lambda>a. case a of SourceChange s \<Rightarrow> unsupportedProjection s | _ \<Rightarrow> True) as"

text \<open>The placeholder promise is the first promise, resolved with the empty canvas.\<close>

definition placeholderResolved :: "MVTWMSImageryProvider \<Rightarrow> bool" where
  "placeholderResolved b =
     (emptyCanvasPromise' b = Promise 0 \<and> take 1 (promises b) = [Resolved (emptyCanvas' b)])"

text \<open>The events raised on \<open>errorEvent\<close> so far.\<close>

definition errorEvents :: "MVTWMSImageryProvider \<Rightarrow> event list" where
  "errorEvents b = filter (\<lambda>e. case e of ErrorEvent m x \<Rightarrow> True | _ \<Rightarrow> False) (effects b)"

text \<open>
  What scaling a flat coordinate array means: every first coordinate of a pair times
  \<open>sx\<close>, every second one times \<open>sy\<close>, in the same order, nothing added; the \<open>y\<close> that
  an array of odd length lacks is \<open>NaN\<close>.
\<close>

fun scalePairs :: "real \<Rightarrow> real \<Rightarrow> number list \<Rightarrow> number list" where
  "scalePairs sx sy [] = []"
| "scalePairs sx sy [a] = [scaled a sx, None]"
| "scalePairs sx sy (a # b # r) = scaled a sx # scaled b sy # scalePairs sx sy r"

text \<open>
  The tile cache holds the key before the first of the actions and after each of them:
  the entry is not evicted. And a list of actions without a change of the source.
\<close>

fun keptThrough :: "MVTWMSImageryProvider \<Rightarrow> action list \<Rightarrow> string \<Rightarrow> bool" where
  "keptThrough b [] key = containsKey (tileCache b) key"
| "keptThrough b (a # as) key = (containsKey (tileCache b) key \<and> keptThrough (step b a) as key)"

definition noSourceChange :: "action list \<Rightarrow> bool" where
  "noSourceChange as = list_all (\<lambda>a. case a of SourceChange s \<Rightarrow> False | _ \<Rightarrow> True) as"

text \<open>Every entry of the cache under the key holds the value.\<close>

definition onlyValue :: "'v LRUCache \<Rightarrow> string \<Rightarrow> 'v \<Rightarrow> bool" where
  "onlyValue c k v = (\<forall>e \<in> set (entries c). fst e = k \<longrightarrow> snd e = v)"

section \<open>The bounded cache: eviction\<close>

lemma highWaterMark_pop: "highWaterMark (pop c) = highWaterMark c"
  by (simp add: pop_def split: list.splits)

lemma expireCache_entries:
  "entries (expireCache c) = drop (length (entries c) - highWaterMark c) (entries c)"
proof (induction c rule: expireCache.induct)
  case (1 c)
  show ?case
  proof (cases "canExpireCache c")
    case True
    then obtain e es where es: "entries c = e # es"
      by (cases "entries c") (auto simp: canExpireCache_def getCount_def)
    have p: "entries (pop c) = es" "highWaterMark (pop c) = highWaterMark c"
      by (simp_all add: pop_def es)
    from True have "length es \<ge> highWaterMark c"
      by (simp add: canExpireCache_def getCount_def es)
    then have "drop (length (e # es) - highWaterMark c) (e # es) = drop (length es - highWaterMark c) es"
      by (simp add: Suc_diff_le)
    with 1 True p es show ?thesis
      by (simp add: expireCache.simps [of c])
  next
    case False
    then show ?thesis
      by (simp add: expireCache.simps [of c] canExpireCache_def getCount_def)
  qed
qed

lemma highWaterMark_expireCache: "highWaterMark (expireCache c) = highWaterMark c"
proof (induction c rule: expireCache.induct)
  case (1 c)
  then show ?case
    by (cases "canExpireCache c") (simp_all add: expireCache.simps [of c] highWaterMark_pop)
qed


lemma entries_set_entry: "entries (set_entry c k v) = entries c @ [(k, v)]"
  by (simp add: set_entry_def)

lemma setAndExpire_entries:
  "entries (setAndExpire c k v) =
     (if Suc (length (entries c)) > 2 * highWaterMark c
      then drop (Suc (length (entries c)) - highWaterMark c) (entries c @ [(k, v)])
      else entries c @ [(k, v)])"
  by (simp add: setAndExpire_def Let_def getCount_def set_entry_def expireCache_entries)

lemma highWaterMark_setAndExpire: "highWaterMark (setAndExpire c k v) = highWaterMark c"
  by (simp add: setAndExpire_def Let_def set_entry_def highWaterMark_expireCache)

lemma expireCache_eq:
  "expireCache c = c\<lparr>entries := drop (length (entries c) - highWaterMark c) (entries c)\<rparr>"
proof -
  have "entries (expireCache c) = drop (length (entries c) - highWaterMark c) (entries c)"
    by (rule expireCache_entries)
  moreover have "highWaterMark (expireCache c) = highWaterMark c"
    by (rule highWaterMark_expireCache)
  moreover have "LRUCache.more (expireCache c) = LRUCache.more c"
  proof (induction c rule: expireCache.induct)
    case (1 c)
    then show ?case
      by (cases "canExpireCache c")
         (simp_all add: expireCache.simps [of c] pop_def split: list.splits)
  qed
  ultimately show ?thesis by simp
qed

lemma lookup_miss: "lookup c k = (None, c1) \<Longrightarrow> c1 = c \<and> \<not> containsKey c k"
  by (auto simp: lookup_def get_def containsKey_def split: if_splits option.splits)

lemma lookup_present:
  "map_of (entries c) k = Some v \<Longrightarrow>
     lookup c k = (Some v, c\<lparr>entries := filter (\<lambda>e. fst e \<noteq> k) (entries c) @ [(k, v)]\<rparr>)"
  by (simp add: lookup_def get_def containsKey_def)

lemma map_of_filter_other: "map_of (filter (\<lambda>e. fst e \<noteq> k) es) k = None"
  by (induction es) auto

section \<open>What a request leaves unchanged\<close>

lemma preserved_refl: "preserved b b"
  by (simp add: preserved_def)

lemma take_take_prefix:
  assumes "take (length xs) ys = xs" "take (length ys) zs = ys"
  shows "take (length xs) zs = xs"
proof -
  from assms(1) have "length (take (length xs) ys) = length xs"
    by simp
  then have "length xs \<le> length ys"
    by simp
  then have "take (length xs) zs = take (length xs) (take (length ys) zs)"
    by (simp add: min_def)
  with assms show ?thesis by simp
qed

lemma preserved_trans: "preserved a b \<Longrightarrow> preserved b c \<Longrightarrow> preserved a c"
  unfolding preserved_def by (auto intro: take_take_prefix)

lemma preserved_record_event: "preserved b (record_event b e)"
  by (simp add: preserved_def record_event_def)

lemma preserved_tileCache: "preserved b (b\<lparr>tileCache := c\<rparr>)"
  by (simp add: preserved_def)

lemma preserved_promises: "preserved b (b\<lparr>promises := promises b @ ps\<rparr>)"
  by (simp add: preserved_def)

lemma preserved_tileRectangle: "preserved b (b\<lparr>tileRectangle' := r\<rparr>)"
  by (simp add: preserved_def)

lemma preserved_catch: "preserved b (snd (catch b e))"
  by (simp add: preserved_def record_event_def catch_def)

lemma preserved_getTileFeatures: "preserved b (snd (getTileFeatures b url z x y))"
  by (simp add: preserved_def getTileFeatures_def record_event_def Let_def
        split: option.splits sum.splits prod.splits)

lemma preserved_loadTile: "preserved b (snd (loadTile b k f proj x y z'))"
proof -
  define b1 where "b1 = record_event b (TileUrlCall z' x y)"
  have u1: "preserved b b1"
    unfolding b1_def by (rule preserved_record_event)
  have "preserved b1 (snd (loadTile b k f proj x y z'))"
    unfolding loadTile_def b1_def [symmetric] Let_def
    using preserved_getTileFeatures [of b1 "the (projr (tileUrl b1 f proj z' x y))" z' x y]
    by (auto simp: preserved_catch preserved_tileCache split: sum.splits prod.splits
          intro: preserved_trans [OF _ preserved_catch]
                 preserved_trans [OF preserved_trans [OF _ preserved_promises] preserved_tileCache])
  with u1 show ?thesis by (rule preserved_trans)
qed

lemma preserved_requestImage: "preserved b (snd (requestImage b x y z r))"
  unfolding requestImage_def Let_def
  by (auto simp: preserved_refl split: option.splits prod.splits
        intro!: preserved_trans [OF preserved_record_event preserved_tileCache]
                preserved_trans [OF preserved_trans [OF preserved_record_event preserved_tileCache]
                                    preserved_loadTile])

lemma preserved_settleTile:
  "settleTile b net h p = Some (r, h1, b1) \<Longrightarrow> preserved b b1"
  unfolding settleTile_def Let_def
  by (auto simp: preserved_refl preserved_tileRectangle
        split: option.splits recipe.splits settled.splits prod.splits)

lemma requestImage_delegate:
  "olWmsDelegate' b = Some d \<Longrightarrow> requestImage b x y z r = (delegateRequestImage d x y z r, b)"
  by (simp add: requestImage_def)

lemma requestImage_below:
  "olWmsDelegate' b = None \<Longrightarrow> z < minimumLevel' b \<Longrightarrow>
     requestImage b x y z r = (Some (emptyCanvasPromise' b), b)"
  by (simp add: requestImage_def)

section \<open>Which requests fetch\<close>

lemma getTileFeatures_fetches:
  assumes "getTileFeatures b url z x y = (res, b1)"
  shows "tileCache b1 = tileCache b"
    and "fetches b1 = fetches b
      \<or> (\<exists>p hs. res = Inr p \<and> fetches b1 = fetches b @ [Fetch url hs])"
  using assms unfolding getTileFeatures_def Let_def fetches_def record_event_def
  by (auto split: option.splits sum.splits prod.splits)

lemma catch_fetches: "fetches (snd (catch b e)) = fetches b"
  by (simp add: catch_def fetches_def record_event_def)

lemma loadTile_fetches:
  assumes "loadTile b k f proj x y z' = (res, b1)"
  shows "fetches b1 = fetches b
    \<or> (\<exists>p url hs. res = Some p \<and> fetches b1 = fetches b @ [Fetch url hs]
          \<and> tileCache b1 = setAndExpire (tileCache b) k p)"
proof -
  define b0 where "b0 = record_event b (TileUrlCall z' x y)"
  have f0: "fetches b0 = fetches b" "tileCache b0 = tileCache b"
    by (simp_all add: b0_def fetches_def record_event_def)
  show ?thesis
  proof (cases "tileUrl b0 f proj z' x y")
    case (Inl e)
    with assms have "b1 = snd (catch b0 e)"
      by (auto simp: loadTile_def Let_def b0_def [symmetric])
    with catch_fetches [of b0 e] f0 show ?thesis by simp
  next
    case (Inr url)
    show ?thesis
    proof (cases "truthy url")
      case False
      with Inr assms have "b1 = b0\<lparr>tileCache := setAndExpire (tileCache b0) k (emptyCanvasPromise' b0)\<rparr>"
        by (auto simp: loadTile_def Let_def b0_def [symmetric])
      with f0 show ?thesis by (simp add: fetches_def)
    next
      case True
      obtain r2 b2 where g: "getTileFeatures b0 (the url) z' x y = (r2, b2)"
        by force
      note gf = getTileFeatures_fetches [OF g]
      show ?thesis
      proof (cases r2)
        case (Inl e)
        with assms Inr True g have "b1 = snd (catch b2 e)"
          by (auto simp: loadTile_def Let_def b0_def [symmetric])
        with gf Inl f0 catch_fetches [of b2 e] show ?thesis by auto
      next
        case r: (Inr fp)
        with assms Inr True g
        have res: "res = Some (Promise (length (promises b2)))"
          and b1: "b1 = b2\<lparr>promises := promises b2 @ [ThenRasterize fp x y z'],
                          tileCache := setAndExpire (tileCache b2) k (Promise (length (promises b2)))\<rparr>"
          by (auto simp: loadTile_def Let_def b0_def [symmetric])
        from b1 have "fetches b1 = fetches b2" "tileCache b1 = setAndExpire (tileCache b2) k (Promise (length (promises b2)))"
          by (simp_all add: fetches_def)
        with gf f0 res show ?thesis by auto
      qed
    qed
  qed
qed

lemma requestImage_fetches:
  assumes "requestImage b x y z r = (res, b1)"
  shows "fetches b1 = fetches b
    \<or> (\<exists>p url hs. res = Some p \<and> fetches b1 = fetches b @ [Fetch url hs]
          \<and> olWmsDelegate' b = None \<and> \<not> z < minimumLevel' b
          \<and> \<not> containsKey (tileCache b)
                (getCacheKey' (if shouldRequestNextLevel b then z + 1 else z) x y)
          \<and> tileCache b1 =
              setAndExpire (tileCache b)
                (getCacheKey' (if shouldRequestNextLevel b then z + 1 else z) x y) p)"
proof (cases "olWmsDelegate' b")
  case (Some d)
  with assms show ?thesis by (auto simp: requestImage_delegate)
next
  case None
  note noDelegate = None
  show ?thesis
  proof (cases "z < minimumLevel' b")
    case True
    with noDelegate assms show ?thesis by (auto simp: requestImage_below)
  next
    case False
    define key where "key = getCacheKey' (if shouldRequestNextLevel b then z + 1 else z) x y"
    define b0 where "b0 = record_event b (TileCacheLookup key)"
    have f0: "fetches b0 = fetches b" "tileCache b0 = tileCache b"
      by (simp_all add: b0_def fetches_def record_event_def)
    obtain hit c where lk: "lookup (tileCache b) key = (hit, c)" by force
    show ?thesis
    proof (cases hit)
      case (Some p)
      with noDelegate False lk assms f0 have "b1 = b0\<lparr>tileCache := c\<rparr>"
        by (auto simp: requestImage_def Let_def key_def [symmetric] b0_def [symmetric])
      with f0 show ?thesis by (simp add: fetches_def)
    next
      case None
      with lk lookup_miss [of "tileCache b" key c] have c: "c = tileCache b"
        and miss: "\<not> containsKey (tileCache b) key"
        by simp_all
      define b2 where "b2 = b0\<lparr>tileCache := c\<rparr>"
      have f2: "fetches b2 = fetches b" "tileCache b2 = tileCache b"
        using f0 c by (simp_all add: b2_def fetches_def)
      have s2: "source' b0 = source' b2" "projection' b0 = projection' b2"
        by (simp_all add: b2_def)
      show ?thesis
      proof (cases "\<exists>f proj. getTileUrlFunction (source' b2) = Some f \<and> projection' b2 = Some proj")
        case False
        with noDelegate \<open>\<not> z < minimumLevel' b\<close> lk None assms f0 s2 have "b1 = b2"
          by (auto simp: requestImage_def Let_def key_def [symmetric] b0_def [symmetric]
                b2_def [symmetric] split: option.splits)
        with f2 show ?thesis by simp
      next
        case True
        then obtain f proj where fp: "getTileUrlFunction (source' b2) = Some f" "projection' b2 = Some proj"
          by blast
        with noDelegate \<open>\<not> z < minimumLevel' b\<close> lk None assms f0 s2
        have "loadTile b2 key f proj x y (if shouldRequestNextLevel b then z + 1 else z) = (res, b1)"
          by (auto simp: requestImage_def Let_def key_def [symmetric] b0_def [symmetric]
                b2_def [symmetric])
        from loadTile_fetches [OF this] f2 noDelegate \<open>\<not> z < minimumLevel' b\<close> miss
        show ?thesis by (auto simp: key_def)
      qed
    qed
  qed
qed

lemma requestImage_hit:
  assumes "olWmsDelegate' b = None" "\<not> z < minimumLevel' b"
    and "map_of (entries (tileCache b))
           (getCacheKey' (if shouldRequestNextLevel b then z + 1 else z) x y) = Some p"
  shows "fst (requestImage b x y z r) = Some p"
    and "fetches (snd (requestImage b x y z r)) = fetches b"
    and "map_of (entries (tileCache (snd (requestImage b x y z r))))
           (getCacheKey' (if shouldRequestNextLevel b then z + 1 else z) x y) = Some p"
  using assms lookup_present [OF assms(3)]
  by (simp_all add: requestImage_def Let_def record_event_def fetches_def map_add_def
        map_of_filter_other)

text \<open>A request for a tile that neither cache holds fetches it.\<close>

lemma tileUrl_cong:
  "lib b1 = lib b \<Longrightarrow> proxy b1 = proxy b \<Longrightarrow>
     tileUrl b1 f proj z' x y = tileUrl b f proj z' x y"
  by (auto simp: tileUrl_def Let_def split: sum.splits option.splits)

lemma requestImage_miss:
  assumes "olWmsDelegate' b = None" "\<not> z < minimumLevel' b"
    and "z' = (if shouldRequestNextLevel b then z + 1 else z)"
    and "\<not> containsKey (tileCache b) (getCacheKey' z' x y)"
    and "\<not> containsKey (featureCache b) (getCacheKey' z' x y)"
    and "getTileUrlFunction (source' b) = Some f" "projection' b = Some proj"
    and "tileUrl b f proj z' x y = Inr (Some u)" "u \<noteq> []"
    and "get_olcs_authHeaders (source' b) = None"
  shows "fst (requestImage b x y z r) = Some (Promise (Suc (length (promises b))))"
    and "fetches (snd (requestImage b x y z r)) = fetches b @ [Fetch u []]"
proof -
  define key where "key = getCacheKey' z' x y"
  define b2 where "b2 = (record_event b (TileCacheLookup key))\<lparr>tileCache := tileCache b\<rparr>"
  from assms(1,2,4,6,7) have r: "requestImage b x y z r = loadTile b2 key f proj x y z'"
    unfolding requestImage_def Let_def assms(3) [symmetric] key_def [symmetric]
    by (simp add: lookup_def b2_def record_event_def)
  define b3 where "b3 = record_event b2 (TileUrlCall z' x y)"
  have u: "tileUrl b3 f proj z' x y = Inr (Some u)"
    using assms(8) tileUrl_cong [of b3 b f proj z' x y]
    by (simp add: b3_def b2_def record_event_def)
  have g: "getTileFeatures b3 u z' x y =
      (Inr (Promise (length (promises b))),
       (record_event (record_event (b3\<lparr>promises := promises b @ [FetchFeatures u []]\<rparr>)
          (FeatureCacheLookup key)) (Fetch u []))
         \<lparr>featureCache := setAndExpire (featureCache b) key (Promise (length (promises b)))\<rparr>)"
    using assms(5,10)
    by (simp add: getTileFeatures_def Let_def lookup_def key_def [symmetric] b3_def b2_def
          record_event_def)
  from u g assms(9) have l: "fst (loadTile b2 key f proj x y z') =
      Some (Promise (Suc (length (promises b))))"
    and f: "fetches (snd (loadTile b2 key f proj x y z')) = fetches b @ [Fetch u []]"
    unfolding loadTile_def Let_def b3_def [symmetric]
    by (simp_all add: truthy_def fetches_def record_event_def b3_def b2_def)
  from r l show "fst (requestImage b x y z r) = Some (Promise (Suc (length (promises b))))"
    by simp
  from r f show "fetches (snd (requestImage b x y z r)) = fetches b @ [Fetch u []]"
    by simp
qed

section \<open>What a request does to the caches\<close>

lemma getTileFeatures_cache:
  "featureCache (snd (getTileFeatures b url z x y)) = snd (lookup (featureCache b) (getCacheKey' z x y))
   \<or> (\<exists>p. featureCache (snd (getTileFeatures b url z x y)) =
          setAndExpire (featureCache b) (getCacheKey' z x y) p)"
proof -
  obtain hit c where lk: "lookup (featureCache b) (getCacheKey' z x y) = (hit, c)" by force
  show ?thesis
  proof (cases hit)
    case (Some p)
    with lk show ?thesis
      by (simp add: getTileFeatures_def Let_def record_event_def)
  next
    case None
    with lk lookup_miss [of "featureCache b" "getCacheKey' z x y" c] have "c = featureCache b"
      by simp
    with lk None show ?thesis
      by (auto simp: getTileFeatures_def Let_def record_event_def split: option.splits sum.splits)
  qed
qed

lemma catch_tileCache: "tileCache (snd (catch b e)) = tileCache b"
  by (simp add: catch_def record_event_def)

lemma loadTile_cache:
  "tileCache (snd (loadTile b k f proj x y z')) = tileCache b
   \<or> (\<exists>p. tileCache (snd (loadTile b k f proj x y z')) = setAndExpire (tileCache b) k p)"
proof -
  obtain res b1 where l: "loadTile b k f proj x y z' = (res, b1)" by force
  define b0 where "b0 = record_event b (TileUrlCall z' x y)"
  have f0: "tileCache b0 = tileCache b"
    by (simp add: b0_def record_event_def)
  have "tileCache b1 = tileCache b \<or> (\<exists>p. tileCache b1 = setAndExpire (tileCache b) k p)"
  proof (cases "tileUrl b0 f proj z' x y")
    case (Inl e)
    with l have "b1 = snd (catch b0 e)"
      by (auto simp: loadTile_def Let_def b0_def [symmetric])
    with f0 show ?thesis by (simp add: catch_tileCache)
  next
    case (Inr url)
    show ?thesis
    proof (cases "truthy url")
      case False
      with Inr l have "b1 = b0\<lparr>tileCache := setAndExpire (tileCache b0) k (emptyCanvasPromise' b0)\<rparr>"
        by (auto simp: loadTile_def Let_def b0_def [symmetric])
      with f0 show ?thesis by auto
    next
      case True
      obtain r2 b2 where g: "getTileFeatures b0 (the url) z' x y = (r2, b2)"
        by force
      from getTileFeatures_fetches(1) [OF g] f0 have t2: "tileCache b2 = tileCache b"
        by simp
      show ?thesis
      proof (cases r2)
        case (Inl e)
        with l Inr True g have "b1 = snd (catch b2 e)"
          by (auto simp: loadTile_def Let_def b0_def [symmetric])
        with t2 show ?thesis by (simp add: catch_tileCache)
      next
        case r: (Inr fp)
        with l Inr True g
        have "b1 = b2\<lparr>promises := promises b2 @ [ThenRasterize fp x y z'],
                        tileCache := setAndExpire (tileCache b2) k (Promise (length (promises b2)))\<rparr>"
          by (auto simp: loadTile_def Let_def b0_def [symmetric])
        with t2 show ?thesis by auto
      qed
    qed
  qed
  with l show ?thesis by simp
qed

lemma requestImage_cache:
  "tileCache (snd (requestImage b x y z r)) = tileCache b
   \<or> tileCache (snd (requestImage b x y z r)) =
       snd (lookup (tileCache b) (getCacheKey' (if shouldRequestNextLevel b then z + 1 else z) x y))
   \<or> (\<exists>p. tileCache (snd (requestImage b x y z r)) =
          setAndExpire (tileCache b)
            (getCacheKey' (if shouldRequestNextLevel b then z + 1 else z) x y) p)"
proof (cases "olWmsDelegate' b = None \<and> \<not> z < minimumLevel' b")
  case False
  then have "snd (requestImage b x y z r) = b"
    by (cases "olWmsDelegate' b") (auto simp: requestImage_delegate requestImage_below)
  then show ?thesis by simp
next
  case True
  obtain res b1 where req: "requestImage b x y z r = (res, b1)" by force
  define key where "key = getCacheKey' (if shouldRequestNextLevel b then z + 1 else z) x y"
  define b0 where "b0 = record_event b (TileCacheLookup key)"
  obtain hit c where lk: "lookup (tileCache b) key = (hit, c)" by force
  have f0: "tileCache b0 = tileCache b"
    by (simp add: b0_def record_event_def)
  have "tileCache b1 = tileCache b \<or> tileCache b1 = snd (lookup (tileCache b) key)
    \<or> (\<exists>p. tileCache b1 = setAndExpire (tileCache b) key p)"
  proof (cases hit)
    case (Some p)
    with True lk f0 req have "b1 = b0\<lparr>tileCache := c\<rparr>"
      by (auto simp: requestImage_def Let_def key_def [symmetric] b0_def [symmetric])
    with lk show ?thesis by simp
  next
    case None
    with lk lookup_miss [of "tileCache b" key c] have c: "c = tileCache b"
      by simp
    define b2 where "b2 = b0\<lparr>tileCache := c\<rparr>"
    have f2: "tileCache b2 = tileCache b"
      using c by (simp add: b2_def)
    have s2: "source' b0 = source' b2" "projection' b0 = projection' b2"
      by (simp_all add: b2_def)
    show ?thesis
    proof (cases "\<exists>f proj. getTileUrlFunction (source' b2) = Some f \<and> projection' b2 = Some proj")
      case False
      with True lk None f0 s2 req have "b1 = b2"
        by (auto simp: requestImage_def Let_def key_def [symmetric] b0_def [symmetric]
              b2_def [symmetric] split: option.splits)
      with f2 show ?thesis by simp
    next
      case fp: True
      then obtain f proj where "getTileUrlFunction (source' b2) = Some f" "projection' b2 = Some proj"
        by blast
      with True lk None f0 s2 req
      have "loadTile b2 key f proj x y (if shouldRequestNextLevel b then z + 1 else z) = (res, b1)"
        by (auto simp: requestImage_def Let_def key_def [symmetric] b0_def [symmetric]
              b2_def [symmetric])
      with loadTile_cache [of b2 key f proj x y "if shouldRequestNextLevel b then z + 1 else z"] f2
      show ?thesis by auto
    qed
  qed
  with req show ?thesis by (simp add: key_def)
qed

section \<open>Readiness\<close>

lemma handleSourceChanged'_ready: "ready' b \<Longrightarrow> handleSourceChanged' b = (None, b)"
  by (simp add: handleSourceChanged'_def)

lemma tryInit_fields:
  "shouldRequestNextLevel (tryInitOlWmsDelegate' b) = shouldRequestNextLevel b"
  "projection' (tryInitOlWmsDelegate' b) = projection' b"
  "promises (tryInitOlWmsDelegate' b) = promises b"
  "effects (tryInitOlWmsDelegate' b) = effects b"
  "emptyCanvas' (tryInitOlWmsDelegate' b) = emptyCanvas' b"
  "emptyCanvasPromise' (tryInitOlWmsDelegate' b) = emptyCanvasPromise' b"
  "minimumLevel' (tryInitOlWmsDelegate' b) = minimumLevel' b"
  "tileCache (tryInitOlWmsDelegate' b) = tileCache b"
  "featureCache (tryInitOlWmsDelegate' b) = featureCache b"
  by (simp_all add: tryInitOlWmsDelegate'_def Let_def split: option.splits)



lemma handleSourceChanged'_fields:
  "promises (snd (handleSourceChanged' b)) = promises b"
  "effects (snd (handleSourceChanged' b)) = effects b"
  "emptyCanvas' (snd (handleSourceChanged' b)) = emptyCanvas' b"
  "emptyCanvasPromise' (snd (handleSourceChanged' b)) = emptyCanvasPromise' b"
  "minimumLevel' (snd (handleSourceChanged' b)) = minimumLevel' b"
  by (simp_all add: handleSourceChanged'_def Let_def tryInit_fields split: option.splits)

lemma handleSourceChanged'_unsupported:
  assumes "unsupportedProjection (source' b)" "\<not> ready' b"
  shows "\<not> ready' (snd (handleSourceChanged' b))"
    and "olWmsDelegate' (snd (handleSourceChanged' b)) = olWmsDelegate' b"
  using assms
  by (auto simp: handleSourceChanged'_def unsupportedProjection_def coalesce_def Let_def
        split: option.splits)

lemma initialise_fields:
  "\<not> ready' (initialise l m s fp opts)" "olWmsDelegate' (initialise l m s fp opts) = None"
  "source' (initialise l m s fp opts) = s"
  "promises (initialise l m s fp opts) = [Resolved createEmptyCanvas]"
  "emptyCanvasPromise' (initialise l m s fp opts) = Promise 0"
  "emptyCanvas' (initialise l m s fp opts) = createEmptyCanvas"
  by (simp_all add: initialise_def Let_def)

lemma step_ready:
  assumes "ready' b"
  shows "ready' (step b a) \<and> shouldRequestNextLevel (step b a) = shouldRequestNextLevel b
    \<and> olWmsDelegate' (step b a) = olWmsDelegate' b"
proof (cases a)
  case (SourceChange s)
  with assms show ?thesis by (simp add: step_def handleSourceChanged'_ready)
next
  case (RequestImage x y z r)
  with assms preserved_requestImage [of b x y z r] show ?thesis
    by (simp add: step_def preserved_def)
next
  case (Settle p net h)
  show ?thesis
  proof (cases "settleTile b net h p")
    case None
    with Settle assms show ?thesis by (simp add: step_def)
  next
    case (Some t)
    obtain r h1 b1 where t: "t = (r, h1, b1)" by (cases t)
    with Some preserved_settleTile [of b net h p r h1 b1] Settle assms show ?thesis
      by (simp add: step_def preserved_def)
  qed
qed


lemma step_unsupported:
  assumes "\<not> ready' b" "olWmsDelegate' b = None"
    and "case a of SourceChange s \<Rightarrow> unsupportedProjection s | _ \<Rightarrow> True"
  shows "\<not> ready' (step b a) \<and> olWmsDelegate' (step b a) = None"
proof (cases a)
  case (SourceChange s)
  with assms handleSourceChanged'_unsupported [of "b\<lparr>source' := s\<rparr>"] show ?thesis
    by (simp add: step_def)
next
  case (RequestImage x y z r)
  with assms preserved_requestImage [of b x y z r] show ?thesis
    by (simp add: step_def preserved_def)
next
  case (Settle p net h)
  show ?thesis
  proof (cases "settleTile b net h p")
    case None
    with Settle assms show ?thesis by (simp add: step_def)
  next
    case (Some t)
    obtain r h1 b1 where "t = (r, h1, b1)" by (cases t)
    with Some preserved_settleTile [of b net h p r h1 b1] Settle assms show ?thesis
      by (simp add: step_def preserved_def)
  qed
qed

lemma run_unsupported:
  "\<not> ready' b \<Longrightarrow> olWmsDelegate' b = None \<Longrightarrow> onlyUnsupported as \<Longrightarrow>
     \<not> ready' (run b as) \<and> olWmsDelegate' (run b as) = None"
proof (induction as arbitrary: b)
  case Nil
  then show ?case by (simp add: run_def)
next
  case (Cons a as)
  from Cons.prems have a: "case a of SourceChange s \<Rightarrow> unsupportedProjection s | _ \<Rightarrow> True"
    and as: "onlyUnsupported as"
    by (simp_all add: onlyUnsupported_def)
  from step_unsupported [OF Cons.prems(1,2) a] Cons.IH [of "step b a"] as show ?case
    by (simp add: run_def)
qed

section \<open>The delegate, once active\<close>

lemma settleTile_fields:
  assumes "settleTile b net h p = Some (r, h1, b1)"
  shows "effects b1 = effects b" "promises b1 = promises b" "tileCache b1 = tileCache b"
    "featureCache b1 = featureCache b"
  using assms unfolding settleTile_def Let_def
  by (auto split: option.splits recipe.splits settled.splits prod.splits)



section \<open>The placeholder promise\<close>

lemma take1_prefix:
  assumes "take (length xs) ys = xs" "take 1 xs = [a]"
  shows "take 1 ys = [a]"
proof -
  from assms(2) obtain xs1 where xs: "xs = a # xs1"
    by (cases xs) auto
  with assms(1) obtain ys1 where "ys = a # ys1"
    by (cases ys) auto
  then show ?thesis by simp
qed

lemma placeholderResolved_preserved:
  assumes "preserved b b1" "placeholderResolved b"
  shows "placeholderResolved b1"
proof -
  from assms have "take (length (promises b)) (promises b1) = promises b"
    and "take 1 (promises b) = [Resolved (emptyCanvas' b)]"
    by (simp_all add: preserved_def placeholderResolved_def)
  then have "take 1 (promises b1) = [Resolved (emptyCanvas' b)]"
    by (rule take1_prefix)
  with assms show ?thesis
    by (simp add: preserved_def placeholderResolved_def)
qed

lemma placeholderResolved_step: "placeholderResolved b \<Longrightarrow> placeholderResolved (step b a)"
proof (cases a)
  case (SourceChange s)
  assume "placeholderResolved b"
  with SourceChange handleSourceChanged'_fields [of "b\<lparr>source' := s\<rparr>"] show ?thesis
    by (simp add: step_def placeholderResolved_def)
next
  case (RequestImage x y z r)
  assume "placeholderResolved b"
  with RequestImage placeholderResolved_preserved [OF preserved_requestImage [of b x y z r]]
  show ?thesis
    by (simp add: step_def)
next
  case (Settle p net h)
  assume pb: "placeholderResolved b"
  show ?thesis
  proof (cases "settleTile b net h p")
    case None
    with Settle pb show ?thesis by (simp add: step_def)
  next
    case (Some t)
    obtain r h1 b1 where "t = (r, h1, b1)" by (cases t)
    with Some placeholderResolved_preserved [OF preserved_settleTile [of b net h p r h1 b1] pb] Settle
    show ?thesis
      by (simp add: step_def)
  qed
qed

lemma placeholderResolved_run: "placeholderResolved b \<Longrightarrow> placeholderResolved (run b as)"
proof (induction as arbitrary: b)
  case Nil
  then show ?case by (simp add: run_def)
next
  case (Cons a as)
  from Cons.IH [OF placeholderResolved_step [OF Cons.prems, of a]] show ?case
    by (simp add: run_def)
qed

lemma placeholderResolved_construct: "placeholderResolved (snd (construct l m s fp opts))"
  by (simp add: construct_def placeholderResolved_def handleSourceChanged'_fields initialise_fields)

lemma settleTile_placeholder:
  assumes "placeholderResolved b"
  shows "settleTile b net h (emptyCanvasPromise' b) = Some (Fulfilled (emptyCanvas' b), h, b)"
proof -
  from assms obtain ps where "promises b = Resolved (emptyCanvas' b) # ps"
    by (cases "promises b") (auto simp: placeholderResolved_def)
  with assms show ?thesis
    by (simp add: settleTile_def recipeOf_def placeholderResolved_def)
qed

section \<open>An entry that is not evicted\<close>

lemma onlyValue_map_of:
  assumes "onlyValue c k v" "containsKey c k"
  shows "map_of (entries c) k = Some v"
proof -
  from assms(2) obtain w where w: "map_of (entries c) k = Some w"
    by (auto simp: containsKey_def)
  then have "(k, w) \<in> set (entries c)"
    by (rule map_of_SomeD)
  with assms(1) have "w = v"
    by (auto simp: onlyValue_def)
  with w show ?thesis by simp
qed

lemma onlyValue_lookup:
  assumes "onlyValue c k v"
  shows "onlyValue (snd (lookup c k')) k v"
proof (cases "map_of (entries c) k'")
  case None
  with assms show ?thesis
    by (simp add: lookup_def containsKey_def)
next
  case (Some w)
  then have "(k', w) \<in> set (entries c)"
    by (rule map_of_SomeD)
  with assms have "k' = k \<longrightarrow> w = v"
    by (auto simp: onlyValue_def)
  with assms Some show ?thesis
    by (auto simp: lookup_def containsKey_def get_def onlyValue_def)
qed

lemma set_setAndExpire:
  "set (entries (setAndExpire c k v)) \<subseteq> set (entries c) \<union> {(k, v)}"
proof -
  have "set (drop n (entries c @ [(k, v)])) \<subseteq> set (entries c) \<union> {(k, v)}" for n
    using set_drop_subset [of n "entries c @ [(k, v)]"] by simp
  then show ?thesis
    by (simp add: setAndExpire_entries del: drop_append)
qed

lemma onlyValue_setAndExpire_other:
  assumes "onlyValue c k v" "k' \<noteq> k"
  shows "onlyValue (setAndExpire c k' w) k v"
  using assms set_setAndExpire [of c k' w]
  by (auto simp: onlyValue_def)

lemma onlyValue_setAndExpire_new:
  assumes "\<not> containsKey c k"
  shows "onlyValue (setAndExpire c k v) k v"
proof -
  from assms have "k \<notin> fst ` set (entries c)"
    by (simp add: containsKey_def map_of_eq_None_iff)
  with set_setAndExpire [of c k v] show ?thesis
    by (fastforce simp: onlyValue_def)
qed

lemma requestImage_cache_present:
  assumes "containsKey (tileCache b) (getCacheKey' (if shouldRequestNextLevel b then z + 1 else z) x y)"
  shows "tileCache (snd (requestImage b x y z r)) = tileCache b
   \<or> tileCache (snd (requestImage b x y z r)) =
       snd (lookup (tileCache b) (getCacheKey' (if shouldRequestNextLevel b then z + 1 else z) x y))"
proof (cases "olWmsDelegate' b = None \<and> \<not> z < minimumLevel' b")
  case False
  then have "snd (requestImage b x y z r) = b"
    by (cases "olWmsDelegate' b") (auto simp: requestImage_delegate requestImage_below)
  then show ?thesis by simp
next
  case True
  from assms obtain v where
    "map_of (entries (tileCache b)) (getCacheKey' (if shouldRequestNextLevel b then z + 1 else z) x y) = Some v"
    by (auto simp: containsKey_def)
  from lookup_present [OF this] True show ?thesis
    by (simp add: requestImage_def Let_def record_event_def)
qed

lemma handleSourceChanged'_tileCache:
  "tileCache (snd (handleSourceChanged' b)) = tileCache b"
  by (simp add: handleSourceChanged'_def Let_def tryInit_fields split: option.splits)

lemma step_onlyValue:
  assumes "onlyValue (tileCache b) k v" "containsKey (tileCache b) k"
  shows "onlyValue (tileCache (step b a)) k v"
proof (cases a)
  case (SourceChange s)
  with assms(1) show ?thesis
    by (simp add: step_def handleSourceChanged'_tileCache)
next
  case (Settle p net h)
  with assms(1) settleTile_fields(3) [of b net h p] show ?thesis
    by (auto simp: step_def split: option.splits)
next
  case (RequestImage x y z r)
  let ?k = "getCacheKey' (if shouldRequestNextLevel b then z + 1 else z) x y"
  show ?thesis
  proof (cases "containsKey (tileCache b) ?k")
    case True
    from requestImage_cache_present [OF True, of r] assms(1) onlyValue_lookup [OF assms(1), of ?k]
    show ?thesis
      by (auto simp: step_def RequestImage)
  next
    case False
    with assms(2) have "?k \<noteq> k" by auto
    from requestImage_cache [of b x y z r] assms(1) onlyValue_lookup [OF assms(1), of ?k]
      onlyValue_setAndExpire_other [OF assms(1) this]
    show ?thesis
      by (auto simp: step_def RequestImage)
  qed
qed

lemma step_minimumLevel': "minimumLevel' (step b a) = minimumLevel' b"
proof (cases a)
  case (SourceChange s)
  then show ?thesis
    by (simp add: step_def handleSourceChanged'_fields)
next
  case (RequestImage x y z r)
  with preserved_requestImage [of b x y z r] show ?thesis
    by (simp add: step_def preserved_def)
next
  case (Settle p net h)
  show ?thesis
  proof (cases "settleTile b net h p")
    case None
    with Settle show ?thesis by (simp add: step_def)
  next
    case (Some t)
    obtain r h1 b1 where t: "t = (r, h1, b1)" by (cases t)
    with Some preserved_settleTile [of b net h p r h1 b1] have "preserved b b1" by simp
    with Settle Some t show ?thesis
      by (simp add: step_def preserved_def)
  qed
qed

lemma step_vector:
  assumes "case a of SourceChange s \<Rightarrow> False | _ \<Rightarrow> True"
  shows "olWmsDelegate' (step b a) = olWmsDelegate' b"
    and "minimumLevel' (step b a) = minimumLevel' b"
    and "shouldRequestNextLevel (step b a) = shouldRequestNextLevel b"
proof -
  have "preserved b (step b a)"
  proof (cases a)
    case (SourceChange s)
    with assms show ?thesis by simp
  next
    case (RequestImage x y z r)
    with preserved_requestImage [of b x y z r] show ?thesis
      by (simp add: step_def)
  next
    case (Settle p net h)
    with preserved_settleTile [of b net h p] show ?thesis
      by (auto simp: step_def preserved_refl split: option.splits)
  qed
  then show "olWmsDelegate' (step b a) = olWmsDelegate' b"
    and "minimumLevel' (step b a) = minimumLevel' b"
    and "shouldRequestNextLevel (step b a) = shouldRequestNextLevel b"
    by (simp_all add: preserved_def)
qed

lemma run_kept:
  assumes "onlyValue (tileCache b) k v" "keptThrough b as k" "ready' b \<or> noSourceChange as"
  shows "map_of (entries (tileCache (run b as))) k = Some v
    \<and> olWmsDelegate' (run b as) = olWmsDelegate' b
    \<and> minimumLevel' (run b as) = minimumLevel' b
    \<and> shouldRequestNextLevel (run b as) = shouldRequestNextLevel b"
  using assms
proof (induction as arbitrary: b)
  case Nil
  then show ?case
    by (simp add: run_def onlyValue_map_of)
next
  case (Cons a as)
  from Cons.prems(2) have c: "containsKey (tileCache b) k" and k: "keptThrough (step b a) as k"
    by simp_all
  from step_onlyValue [OF Cons.prems(1) c] have o: "onlyValue (tileCache (step b a)) k v" .
  show ?case
  proof (cases "ready' b")
    case True
    from step_ready [OF True, of a] Cons.IH [OF o k] step_minimumLevel' [of b a] show ?thesis
      by (simp add: run_def)
  next
    case False
    with Cons.prems(3) have a: "case a of SourceChange s \<Rightarrow> False | _ \<Rightarrow> True"
      and as: "noSourceChange as"
      by (simp_all add: noSourceChange_def)
    from Cons.IH [OF o k] as step_vector [OF a, of b] show ?thesis
      by (simp add: run_def)
  qed
qed

lemma keptThrough_take: "keptThrough b as k \<Longrightarrow> keptThrough b (take n as) k"
proof (induction as arbitrary: b n)
  case Nil
  then show ?case by simp
next
  case (Cons a as)
  then show ?case by (cases n) simp_all
qed

lemma noSourceChange_take: "noSourceChange as \<Longrightarrow> noSourceChange (take n as)"
  unfolding noSourceChange_def list_all_iff
  using set_take_subset [of n as] by blast

section \<open>The store during rasterization\<close>

lemma take_store: "n \<le> a \<Longrightarrow> take n (store h a i v) = take n h"
  by (simp add: store_def)

lemma take_scaleStep: "n \<le> flat \<Longrightarrow> take n (scaleStep h src flat i sx sy) = take n h"
  by (simp add: scaleStep_def Let_def take_store)

lemma take_scaleLoop: "n \<le> flat \<Longrightarrow> take n (scaleLoop h src flat i sx sy) = take n h"
proof (induction h src flat i sx sy rule: scaleLoop.induct)
  case (1 h src flat i sx sy)
  show ?case
  proof (cases "i < length (arrayAt h src)")
    case True
    with 1 show ?thesis
      by (simp add: scaleLoop.simps [of h src flat i] take_scaleStep)
  next
    case False
    then show ?thesis
      by (simp add: scaleLoop.simps [of h src flat i])
  qed
qed

lemma length_scaleStep: "length (scaleStep h src flat i sx sy) = length h"
  by (simp add: scaleStep_def Let_def length_store)

lemma length_scaleLoop: "length (scaleLoop h src flat i sx sy) = length h"
proof (induction h src flat i sx sy rule: scaleLoop.induct)
  case (1 h src flat i sx sy)
  then show ?case
    by (cases "i < length (arrayAt h src)")
       (simp_all add: scaleLoop.simps [of h src flat i] length_scaleStep)
qed

lemma cloneAndScaleGeometry'_heap:
  "take (length h) (snd (cloneAndScaleGeometry' h f sx sy)) = h"
  "length h \<le> length (snd (cloneAndScaleGeometry' h f sx sy))"
  by (simp_all add: cloneAndScaleGeometry'_def newArray_def Let_def take_scaleLoop length_scaleLoop
        split: option.splits)

lemma rasterizeLoop_heap:
  "take (length h) (snd (rasterizeLoop h c features styleFn resolution sx sy)) = h"
proof (induction features arbitrary: h c)
  case Nil
  show ?case by simp
next
  case (Cons f features)
  obtain g h1 where cl: "cloneAndScaleGeometry' h f sx sy = (g, h1)" by force
  with cloneAndScaleGeometry'_heap [of h f sx sy]
  have h1: "take (length h) h1 = h" by simp
  have "\<exists>c1. rasterizeLoop h c (f # features) styleFn resolution sx sy
          = rasterizeLoop h1 c1 features styleFn resolution sx sy"
    using cl by (auto split: option.splits styles.splits)
  then obtain c1 where "rasterizeLoop h c (f # features) styleFn resolution sx sy
          = rasterizeLoop h1 c1 features styleFn resolution sx sy" ..
  with Cons.IH [of h1 c1] h1 show ?case
    by (simp add: take_take_prefix)
qed

lemma take_assign2:
  assumes "i < length fl"
  shows "take (i + 2) (assign (assign fl i v1) (Suc i) v2) = take i fl @ [v1, v2]"
proof (cases "Suc i < length fl")
  case True
  with assms show ?thesis
    by (simp add: assign_def take_Suc_conv_app_nth)
next
  case False
  with assms have l: "length fl = Suc i" by simp
  then have "fl[i := v1] = take i fl @ [v1]"
    by (simp add: upd_conv_take_nth_drop)
  with l show ?thesis
    by (simp add: assign_def)
qed

lemma scalePairs_drop:
  assumes "i < length s"
  shows "scalePairs sx sy (drop i s) =
     [scaled (element s i) sx, scaled (element s (Suc i)) sy] @ scalePairs sx sy (drop (i + 2) s)"
proof (cases "Suc i < length s")
  case True
  with assms have "drop i s = s ! i # s ! Suc i # drop (i + 2) s"
    by (simp add: Cons_nth_drop_Suc)
  with True assms show ?thesis
    by (simp add: element_def)
next
  case False
  with assms have "drop i s = [s ! i]" "drop (i + 2) s = []"
    by (simp_all add: Cons_nth_drop_Suc [symmetric])
  with False assms show ?thesis
    by (simp add: element_def scaled_def)
qed

lemma arrayAt_scaleStep:
  assumes "flat \<noteq> src" "flat < length h"
  shows "arrayAt (scaleStep h src flat i sx sy) src = arrayAt h src"
    and "arrayAt (scaleStep h src flat i sx sy) flat =
      assign (assign (arrayAt h flat) i (scaled (element (arrayAt h src) i) sx)) (Suc i)
        (scaled (element (arrayAt h src) (Suc i)) sy)"
  using assms by (simp_all add: scaleStep_def Let_def arrayAt_store length_store)

lemma scaleLoop_flat:
  assumes "flat \<noteq> src" "flat < length h"
    and "length (arrayAt h flat) = max (length (arrayAt h src)) i"
  shows "arrayAt (scaleLoop h src flat i sx sy) flat =
     take i (arrayAt h flat) @ scalePairs sx sy (drop i (arrayAt h src))"
  using assms
proof (induction h src flat i sx sy rule: scaleLoop.induct)
  case (1 h src flat i sx sy)
  let ?s = "arrayAt h src" and ?fl = "arrayAt h flat"
  show ?case
  proof (cases "i < length ?s")
    case False
    with "1.prems" show ?thesis
      by (simp add: scaleLoop.simps [of h src flat i])
  next
    case True
    let ?h1 = "scaleStep h src flat i sx sy"
    let ?v1 = "scaled (element ?s i) sx" and ?v2 = "scaled (element ?s (Suc i)) sy"
    from "1.prems" have st: "arrayAt ?h1 src = ?s"
      "arrayAt ?h1 flat = assign (assign ?fl i ?v1) (Suc i) ?v2"
      by (simp_all add: arrayAt_scaleStep)
    from True "1.prems" have ifl: "i < length ?fl" by simp
    from st True "1.prems" have len: "length (arrayAt ?h1 flat) = max (length (arrayAt ?h1 src)) (i + 2)"
      by (simp add: length_assign)
    from "1.prems" have "flat < length ?h1"
      by (simp add: length_scaleStep)
    from "1.IH" [OF True "1.prems"(1) this len] st
    have "arrayAt (scaleLoop ?h1 src flat (i + 2) sx sy) flat =
        take (i + 2) (assign (assign ?fl i ?v1) (Suc i) ?v2) @ scalePairs sx sy (drop (i + 2) ?s)"
      by simp
    with take_assign2 [OF ifl, of ?v1 ?v2] scalePairs_drop [OF True, of sx sy] True
    show ?thesis
      by (simp add: scaleLoop.simps [of h src flat i])
  qed
qed

lemma cloneAndScaleGeometry'_buffer:
  assumes "getFlatCoordinates f = Some src" "src < length h"
  shows "arrayAt (snd (cloneAndScaleGeometry' h f sx sy)) (length h) =
     scalePairs sx sy (arrayAt h src)"
proof -
  let ?n = "length (arrayAt h src)"
  let ?h1 = "h @ [replicate ?n None]"
  from assms(2) have a: "arrayAt ?h1 src = arrayAt h src" "arrayAt ?h1 (length h) = replicate ?n None"
    by (simp_all add: arrayAt_def nth_append)
  from assms(2) have "length h \<noteq> src" "length h < length ?h1"
    by simp_all
  from scaleLoop_flat [OF this, of 0 sx sy] a
  have "arrayAt (scaleLoop ?h1 src (length h) 0 sx sy) (length h) = scalePairs sx sy (arrayAt h src)"
    by simp
  with assms(1) show ?thesis
    by (simp add: cloneAndScaleGeometry'_def newArray_def Let_def)
qed

lemma rasterizeLoop_single:
  "snd (rasterizeLoop h c [f] styleFn resolution sx sy) = snd (cloneAndScaleGeometry' h f sx sy)"
  by (cases "cloneAndScaleGeometry' h f sx sy")
     (auto split: option.splits styles.splits)

lemma pushCoords_two:
  "pushCoords [a, b, c, d] 0 (Suc (Suc (Suc (Suc 0)))) = ([(a, b), (c, d)], 4)"
proof -
  have "pushCoords [a, b, c, d] (Suc (Suc (Suc (Suc 0)))) (Suc (Suc (Suc (Suc 0)))) = ([], 4)"
    by (simp add: pushCoords.simps [of _ "Suc (Suc (Suc (Suc 0)))"])
  then have "pushCoords [a, b, c, d] (Suc (Suc 0)) (Suc (Suc (Suc (Suc 0)))) = ([(c, d)], 4)"
    by (simp add: pushCoords.simps [of _ "Suc (Suc 0)"] element_def)
  then show ?thesis
    by (simp add: pushCoords.simps [of _ 0] element_def)
qed

text \<open>From the fetch to the canvas, the store that the decoder leaves is kept.\<close>

lemma settleTile_decoded:
  assumes "recipeOf b p = Some (ThenRasterize fp x y z')"
    and "recipeOf b fp = Some (FetchFeatures url hs)"
    and "net url hs = Response True (Some buffer)"
    and "readFeatures (lib b) buffer h0 = Inr (features, h)"
  shows "\<exists>c h2 b1. settleTile b net h0 p = Some (Fulfilled c, h2, b1) \<and> take (length h) h2 = h"
  using assms
  by (simp add: settleTile_def settleFeatures_def readFeaturesFromBuffer_def Let_def split_beta
        rasterizeFeatures_def rasterizeLoop_heap)

section \<open>The example providers, evaluated\<close>

lemmas ex_defs = exProjection_def exLib_def exMap_def exSource_def exOptions_def
lemmas ready_defs = construct_def initialise_def handleSourceChanged'_def tryInitOlWmsDelegate'_def
  deriveTileWmsFromVector'_def cloneTileWms'_def getAuthHeadersFn'_def getSourceProjection_def
  levelZeroTiles_def coalesce_def truthy_def truthyProxy_def orElse_def tilingScheme_def newLRUCache_def

lemma exVector_fields:
  "olWmsDelegate' exVector = None" "ready' exVector" "minimumLevel' exVector = 2"
  "\<not> shouldRequestNextLevel exVector"
  "tileCache exVector = \<lparr>highWaterMark = 2, entries = []\<rparr>"
  "featureCache exVector = \<lparr>highWaterMark = 2, entries = []\<rparr>"
  "promises exVector = [Resolved createEmptyCanvas]"
  "effects exVector = []"
  "emptyCanvasPromise' exVector = Promise 0"
  by (simp_all add: exVector_def ex_defs ready_defs Let_def)

lemma exDelegated_fields:
  "olWmsDelegate' exDelegated = Some exDelegate" "ready' exDelegated" "minimumLevel' exDelegated = 2"
  "emptyCanvasPromise' exDelegated = Promise 0" "effects exDelegated = []"
  "promises exDelegated = [Resolved createEmptyCanvas]"
  by (simp_all add: exDelegated_def ex_defs ready_defs Let_def)

lemma exUnsupported_fields:
  "olWmsDelegate' exUnsupported = None" "\<not> ready' exUnsupported" "minimumLevel' exUnsupported = 2"
  by (simp_all add: exUnsupported_def ex_defs ready_defs Let_def)


lemmas request_defs = requestImage_def loadTile_def getTileFeatures_def tileUrl_def lookup_def
  get_def containsKey_def record_event_def fetches_def setAndExpire_def set_entry_def getCount_def
  truthy_def

lemma exVector_eq:
  "exVector =
     \<lparr>lib = exLib, source' = exSource, projection' = Some (exProjection ''EPSG:3857''),
      fallbackProj' = None, styleFunction' = (\<lambda>f resolution. StyleArray defaultStyles),
      map' = exMap, shouldRequestNextLevel = False, emptyCanvas' = createEmptyCanvas,
      emptyCanvasPromise' = Promise 0,
      tilingScheme' = WebMercatorTilingScheme (Some (1, 1)), ready' = True,
      rectangle' = Some (-180, -90, 180, 90), tileRectangle' = (0, 0, 0, 0),
      minimumLevel' = 2, featureCache = \<lparr>highWaterMark = 2, entries = []\<rparr>,
      tileCache = \<lparr>highWaterMark = 2, entries = []\<rparr>, olWmsDelegate' = None, proxy = None,
      promises = [Resolved createEmptyCanvas], effects = []\<rparr>"
  by (simp add: exVector_def ex_defs construct_def initialise_def handleSourceChanged'_def
        tryInitOlWmsDelegate'_def getSourceProjection_def levelZeroTiles_def coalesce_def
        truthy_def truthyProxy_def tilingScheme_def newLRUCache_def Let_def)

lemma exVector_first:
  "fst (requestImage exVector 0 0 2 None) = Some (Promise 2)"
  "fetches (snd (requestImage exVector 0 0 2 None)) = [Fetch ''https://tiles.example/t.pbf'' []]"
  by (simp_all add: exVector_eq exSource_def exLib_def request_defs Let_def)

lemma showNat_digit: "n < 10 \<Longrightarrow> showNat n = [''0123456789'' ! n]"
  by (simp add: showNat.simps [of n])

lemma getCacheKey'_digits:
  "0 \<le> z \<Longrightarrow> z < 10 \<Longrightarrow> 0 \<le> x \<Longrightarrow> x < 10 \<Longrightarrow> 0 \<le> y \<Longrightarrow> y < 10 \<Longrightarrow>
     getCacheKey' z x y =
       [''0123456789'' ! nat z] @ ''_'' @ [''0123456789'' ! nat x] @ ''_'' @ [''0123456789'' ! nat y]"
  by (simp add: getCacheKey'_def showInt_def showNat_digit)

lemma exSmall_eq:
  "exSmall n =
     \<lparr>lib = exLib, source' = exKeyedSource, projection' = Some (exProjection ''EPSG:3857''),
      fallbackProj' = None, styleFunction' = (\<lambda>f resolution. StyleArray defaultStyles),
      map' = exMap, shouldRequestNextLevel = False, emptyCanvas' = createEmptyCanvas,
      emptyCanvasPromise' = Promise 0,
      tilingScheme' = WebMercatorTilingScheme (Some (1, 1)), ready' = True,
      rectangle' = Some (-180, -90, 180, 90), tileRectangle' = (0, 0, 0, 0),
      minimumLevel' = 2, featureCache = \<lparr>highWaterMark = n, entries = []\<rparr>,
      tileCache = \<lparr>highWaterMark = n, entries = []\<rparr>, olWmsDelegate' = None, proxy = None,
      promises = [Resolved createEmptyCanvas], effects = []\<rparr>"
  by (simp add: exSmall_def exKeyedSource_def ex_defs construct_def initialise_def handleSourceChanged'_def
        tryInitOlWmsDelegate'_def getSourceProjection_def levelZeroTiles_def coalesce_def
        truthy_def truthyProxy_def tilingScheme_def newLRUCache_def Let_def)

lemma exVector_requested:
  "snd (requestImage exVector 0 0 2 None) =
     exVector
       \<lparr>featureCache := \<lparr>highWaterMark = 2, entries = [(getCacheKey' 2 0 0, Promise 1)]\<rparr>,
        tileCache := \<lparr>highWaterMark = 2, entries = [(getCacheKey' 2 0 0, Promise 2)]\<rparr>,
        promises := [Resolved createEmptyCanvas, FetchFeatures ''https://tiles.example/t.pbf'' [],
                     ThenRasterize (Promise 1) 0 0 2],
        effects := [TileCacheLookup (getCacheKey' 2 0 0), TileUrlCall 2 0 0,
                    FeatureCacheLookup (getCacheKey' 2 0 0),
                    Fetch ''https://tiles.example/t.pbf'' []]\<rparr>"
  by (simp add: exVector_eq exSource_def exLib_def request_defs Let_def)

lemma exUnsupported_eq:
  "exUnsupported =
     \<lparr>lib = exLib, source' = exSource\<lparr>getProjection := Some (exProjection ''EPSG:9999'')\<rparr>,
      projection' = Some (exProjection ''EPSG:9999''),
      fallbackProj' = None, styleFunction' = (\<lambda>f resolution. StyleArray defaultStyles),
      map' = exMap, shouldRequestNextLevel = False, emptyCanvas' = createEmptyCanvas,
      emptyCanvasPromise' = Promise 0,
      tilingScheme' = WebMercatorTilingScheme None, ready' = False,
      rectangle' = Some (-180, -90, 180, 90), tileRectangle' = (0, 0, 0, 0),
      minimumLevel' = 2, featureCache = \<lparr>highWaterMark = 2, entries = []\<rparr>,
      tileCache = \<lparr>highWaterMark = 2, entries = []\<rparr>, olWmsDelegate' = None, proxy = None,
      promises = [Resolved createEmptyCanvas], effects = []\<rparr>"
  by (simp add: exUnsupported_def ex_defs construct_def initialise_def handleSourceChanged'_def
        getSourceProjection_def levelZeroTiles_def coalesce_def
        truthy_def truthyProxy_def tilingScheme_def newLRUCache_def Let_def)

lemma exUnsupported_changed:
  "run exUnsupported
     [SourceChange (exSource\<lparr>getProjection := Some (exProjection ''EPSG:9999'')\<rparr>),
      RequestImage 0 0 0 None]
     = exUnsupported"
  by (simp add: run_def step_def exUnsupported_eq handleSourceChanged'_def getSourceProjection_def
        coalesce_def exSource_def exProjection_def Let_def requestImage_def)

lemma exSmall_first:
  "requestImage (exSmall 2) 0 0 2 None =
     (Some (Promise 2),
      (exSmall 2)
        \<lparr>featureCache := \<lparr>highWaterMark = 2, entries = [(''2_0_0'', Promise 1)]\<rparr>,
         tileCache := \<lparr>highWaterMark = 2, entries = [(''2_0_0'', Promise 2)]\<rparr>,
         promises := [Resolved createEmptyCanvas, FetchFeatures ''https://tiles.example/2_0_0'' [],
                      ThenRasterize (Promise 1) 0 0 2],
         effects := [TileCacheLookup ''2_0_0'', TileUrlCall 2 0 0, FeatureCacheLookup ''2_0_0'',
                     Fetch ''https://tiles.example/2_0_0'' []]\<rparr>)"
  by (simp add: exSmall_eq exKeyedSource_def exSource_def exLib_def request_defs Let_def
        getCacheKey'_digits)


lemma exSmall_fields:
  "effects (exSmall n) = []" "ready' (exSmall n)" "\<not> shouldRequestNextLevel (exSmall n)"
  by (simp_all add: exSmall_eq)

section \<open>Claims\<close>

text \<open>
  C3. In both caches, \<open>set\<close> alone evicts nothing. The insertion that follows a miss
  evicts exactly when the occupancy after \<open>set\<close> is above twice \<open>highWaterMark\<close>: then
  the oldest entries go until \<open>highWaterMark\<close> entries, the newest ones, are left; an
  insertion that leaves the occupancy at or below twice \<open>highWaterMark\<close> keeps every
  entry. \<open>requestImage\<close> changes the tile cache, and \<open>getTileFeatures\<close> the feature
  cache, by a look-up or by one such insertion, and in no other way.
\<close>

theorem cache_eviction_hysteresis:
  fixes c :: "'v LRUCache"
  shows "entries (set_entry c k v) = entries c @ [(k, v)]
    \<and> (2 * highWaterMark c < getCount (set_entry c k v) \<longrightarrow>
         entries (setAndExpire c k v) =
           drop (getCount (set_entry c k v) - highWaterMark c) (entries (set_entry c k v))
         \<and> getCount (setAndExpire c k v) = highWaterMark c
         \<and> getCount (setAndExpire c k v) < getCount (set_entry c k v))
    \<and> (getCount (set_entry c k v) \<le> 2 * highWaterMark c \<longrightarrow>
         setAndExpire c k v = set_entry c k v)
    \<and> (tileCache (snd (requestImage b x y z request)) = tileCache b
        \<or> tileCache (snd (requestImage b x y z request)) =
            snd (lookup (tileCache b)
                  (getCacheKey' (if shouldRequestNextLevel b then z + 1 else z) x y))
        \<or> (\<exists>p. tileCache (snd (requestImage b x y z request)) =
               setAndExpire (tileCache b)
                 (getCacheKey' (if shouldRequestNextLevel b then z + 1 else z) x y) p))
    \<and> (featureCache (snd (getTileFeatures b url z x y)) =
          snd (lookup (featureCache b) (getCacheKey' z x y))
        \<or> (\<exists>p. featureCache (snd (getTileFeatures b url z x y)) =
               setAndExpire (featureCache b) (getCacheKey' z x y) p))"
proof (intro conjI impI)
  show "entries (set_entry c k v) = entries c @ [(k, v)]"
    by (rule entries_set_entry)
next
  assume over: "2 * highWaterMark c < getCount (set_entry c k v)"
  then have len: "2 * highWaterMark c < Suc (length (entries c))"
    by (simp add: getCount_def entries_set_entry)
  show e: "entries (setAndExpire c k v) =
      drop (getCount (set_entry c k v) - highWaterMark c) (entries (set_entry c k v))"
    using len by (simp add: setAndExpire_entries getCount_def entries_set_entry)
  show "getCount (setAndExpire c k v) = highWaterMark c"
    using len by (simp add: getCount_def setAndExpire_entries)
  show "getCount (setAndExpire c k v) < getCount (set_entry c k v)"
    using len by (simp add: getCount_def setAndExpire_entries entries_set_entry)
next
  assume "getCount (set_entry c k v) \<le> 2 * highWaterMark c"
  then show "setAndExpire c k v = set_entry c k v"
    by (simp add: setAndExpire_def Let_def set_entry_def getCount_def)
next
  show "tileCache (snd (requestImage b x y z request)) = tileCache b
        \<or> tileCache (snd (requestImage b x y z request)) =
            snd (lookup (tileCache b)
                  (getCacheKey' (if shouldRequestNextLevel b then z + 1 else z) x y))
        \<or> (\<exists>p. tileCache (snd (requestImage b x y z request)) =
               setAndExpire (tileCache b)
                 (getCacheKey' (if shouldRequestNextLevel b then z + 1 else z) x y) p)"
    by (rule requestImage_cache)
next
  show "featureCache (snd (getTileFeatures b url z x y)) =
          snd (lookup (featureCache b) (getCacheKey' z x y))
        \<or> (\<exists>p. featureCache (snd (getTileFeatures b url z x y)) =
               setAndExpire (featureCache b) (getCacheKey' z x y) p)"
    by (rule getTileFeatures_cache)
qed

theorem cache_eviction_hysteresis_witness:
  "2 * highWaterMark \<lparr>highWaterMark = 1, entries = [(''a'', Promise 1), (''b'', Promise 2)]\<rparr>
     < getCount (set_entry \<lparr>highWaterMark = 1, entries = [(''a'', Promise 1), (''b'', Promise 2)]\<rparr>
                  ''c'' (Promise 3))
   \<and> entries (setAndExpire \<lparr>highWaterMark = 1, entries = [(''a'', Promise 1), (''b'', Promise 2)]\<rparr>
                 ''c'' (Promise 3)) = [(''c'', Promise 3)]
   \<and> getCount (set_entry \<lparr>highWaterMark = 1, entries = [(''a'', Promise 1)]\<rparr> ''b'' (Promise 2))
       \<le> 2 * highWaterMark \<lparr>highWaterMark = 1, entries = [(''a'', Promise 1)]\<rparr>
   \<and> entries (setAndExpire \<lparr>highWaterMark = 1, entries = [(''a'', Promise 1)]\<rparr> ''b'' (Promise 2))
       = [(''a'', Promise 1), (''b'', Promise 2)]"
  using cache_eviction_hysteresis
          [of "\<lparr>highWaterMark = 1, entries = [(''a'', Promise 1), (''b'', Promise 2)]\<rparr>"
              "''c''" "Promise 3" exVector 0 0 2 None "''https://tiles.example/t.pbf''"]
        cache_eviction_hysteresis
          [of "\<lparr>highWaterMark = 1, entries = [(''a'', Promise 1)]\<rparr>" "''b''" "Promise 2" exVector 0 0 2 None "''https://tiles.example/t.pbf''"]
  by (simp add: getCount_def set_entry_def)

text \<open>
  C1. The first call of \<open>requestImage\<close> for an address returns a promise and issues a
  fetch. Then, whatever is requested and whichever promises settle afterwards (and, on a
  ready provider, however the source changes), as long as the entry of the tile is not
  evicted from the tile cache, every further call for the address returns that promise
  and issues no fetch: the fetch of the first call is the only one for the tile.
\<close>

theorem coalesced_requests:
  assumes "requestImage b x y z request0 = (Some p, b1)"
    and "fetches b1 = fetches b @ [Fetch url hs]"
    and "ready b \<or> noSourceChange as"
    and "keptThrough b1 as (getCacheKey' (if shouldRequestNextLevel b then z + 1 else z) x y)"
  shows "\<forall>n \<le> length as.
     fst (requestImage (run b1 (take n as)) x y z request) = Some p
     \<and> fetches (snd (requestImage (run b1 (take n as)) x y z request)) = fetches (run b1 (take n as))"
proof (intro allI impI)
  fix n
  let ?key = "getCacheKey' (if shouldRequestNextLevel b then z + 1 else z) x y"
  from requestImage_fetches [OF assms(1)] assms(2)
  have d: "olWmsDelegate' b = None" and lv: "\<not> z < minimumLevel' b"
    and miss: "\<not> containsKey (tileCache b) ?key"
    and tc: "tileCache b1 = setAndExpire (tileCache b) ?key p"
    by auto
  from preserved_requestImage [of b x y z request0] assms(1) d lv
  have p: "olWmsDelegate' b1 = None" "\<not> z < minimumLevel' b1"
    "shouldRequestNextLevel b1 = shouldRequestNextLevel b" "ready' b1 = ready' b"
    by (simp_all add: preserved_def)
  from assms(3) p(4) noSourceChange_take [of as n]
  have r: "ready' b1 \<or> noSourceChange (take n as)"
    by (auto simp: ready_def)
  from onlyValue_setAndExpire_new [OF miss, of p] tc
  have "onlyValue (tileCache b1) ?key p"
    by simp
  from run_kept [OF this keptThrough_take [OF assms(4)] r] p
  have "olWmsDelegate' (run b1 (take n as)) = None" "\<not> z < minimumLevel' (run b1 (take n as))"
    "map_of (entries (tileCache (run b1 (take n as))))
       (getCacheKey' (if shouldRequestNextLevel (run b1 (take n as)) then z + 1 else z) x y) = Some p"
    by simp_all
  from requestImage_hit(1,2) [OF this, of request]
  show "fst (requestImage (run b1 (take n as)) x y z request) = Some p
     \<and> fetches (snd (requestImage (run b1 (take n as)) x y z request)) = fetches (run b1 (take n as))"
    by simp
qed

theorem coalesced_requests_witness:
  "requestImage (exSmall 2) 0 0 2 None = (Some (Promise 2), snd (requestImage (exSmall 2) 0 0 2 None))
   \<and> fetches (snd (requestImage (exSmall 2) 0 0 2 None))
       = fetches (exSmall 2) @ [Fetch ''https://tiles.example/2_0_0'' []]
   \<and> ready (exSmall 2)
   \<and> keptThrough (snd (requestImage (exSmall 2) 0 0 2 None))
        [RequestImage 1 0 2 None, RequestImage 0 0 2 None] (getCacheKey' 2 0 0)
   \<and> fst (requestImage
            (run (snd (requestImage (exSmall 2) 0 0 2 None)) [RequestImage 1 0 2 None])
            0 0 2 None) = Some (Promise 2)
   \<and> fst (requestImage
            (run (snd (requestImage (exSmall 2) 0 0 2 None))
               [RequestImage 1 0 2 None, RequestImage 0 0 2 None])
            0 0 2 None) = Some (Promise 2)
   \<and> fetches (snd (requestImage
            (run (snd (requestImage (exSmall 2) 0 0 2 None))
               [RequestImage 1 0 2 None, RequestImage 0 0 2 None])
            0 0 2 None))
       = [Fetch ''https://tiles.example/2_0_0'' [], Fetch ''https://tiles.example/2_1_0'' []]"
proof -
  let ?b1 = "snd (requestImage (exSmall 2) 0 0 2 None)"
  let ?as = "[RequestImage 1 0 2 None, RequestImage 0 0 2 None]"
  have first: "requestImage (exSmall 2) 0 0 2 None = (Some (Promise 2), ?b1)"
    by (simp add: exSmall_first)
  have fetch: "fetches ?b1 = fetches (exSmall 2) @ [Fetch ''https://tiles.example/2_0_0'' []]"
    by (simp add: exSmall_first fetches_def exSmall_fields)
  have rdy: "ready (exSmall 2)"
    by (simp add: ready_def exSmall_fields)
  have kept: "keptThrough ?b1 ?as (getCacheKey' (if shouldRequestNextLevel (exSmall 2) then 2 + 1 else 2) 0 0)"
    unfolding exSmall_first
    by (simp add: exSmall_eq exKeyedSource_def exSource_def exLib_def request_defs
          Let_def step_def getCacheKey'_digits)
  have after: "fetches (run ?b1 ?as)
      = [Fetch ''https://tiles.example/2_0_0'' [], Fetch ''https://tiles.example/2_1_0'' []]"
    unfolding exSmall_first
    by (simp add: exSmall_eq exKeyedSource_def exSource_def exLib_def request_defs
          Let_def run_def step_def getCacheKey'_digits)
  from coalesced_requests [OF first fetch disjI1 [OF rdy] kept, of None]
  have all: "\<forall>n \<le> length ?as.
     fst (requestImage (run ?b1 (take n ?as)) 0 0 2 None) = Some (Promise 2)
     \<and> fetches (snd (requestImage (run ?b1 (take n ?as)) 0 0 2 None)) = fetches (run ?b1 (take n ?as))" .
  from all [rule_format, of 1]
  have one: "fst (requestImage (run ?b1 [RequestImage 1 0 2 None]) 0 0 2 None) = Some (Promise 2)"
    by simp
  from all [rule_format, of 2] after
  have two: "fst (requestImage (run ?b1 ?as) 0 0 2 None) = Some (Promise 2)"
    "fetches (snd (requestImage (run ?b1 ?as) 0 0 2 None))
       = [Fetch ''https://tiles.example/2_0_0'' [], Fetch ''https://tiles.example/2_1_0'' []]"
    by simp_all
  from kept have kept': "keptThrough ?b1 ?as (getCacheKey' 2 0 0)"
    by (simp add: exSmall_fields)
  show ?thesis
    by (intro conjI first fetch rdy kept' one two)
qed

text \<open>
  With caches of size one, two requests for other tiles between two requests for one
  tile evict its entry while its promise is pending: the tile is fetched twice, and the
  two calls return different promises.
\<close>

theorem coalescing_eviction_counterexample:
  "fst (requestImage (exSmall 1) 0 0 2 None) = Some (Promise 2)
   \<and> \<not> keptThrough (snd (requestImage (exSmall 1) 0 0 2 None))
          [RequestImage 1 0 2 None, RequestImage 2 0 2 None] (getCacheKey' 2 0 0)
   \<and> fst (requestImage
            (run (snd (requestImage (exSmall 1) 0 0 2 None))
               [RequestImage 1 0 2 None, RequestImage 2 0 2 None])
            0 0 2 None) = Some (Promise 8)
   \<and> fetches (snd (requestImage
            (run (snd (requestImage (exSmall 1) 0 0 2 None))
               [RequestImage 1 0 2 None, RequestImage 2 0 2 None])
            0 0 2 None))
       = [Fetch ''https://tiles.example/2_0_0'' [], Fetch ''https://tiles.example/2_1_0'' [],
          Fetch ''https://tiles.example/2_2_0'' [], Fetch ''https://tiles.example/2_0_0'' []]"
  by (simp add: exSmall_eq exKeyedSource_def exSource_def exLib_def request_defs Let_def run_def step_def
        getCacheKey'_digits expireCache_eq numeral_2_eq_2)

text \<open>
  C2. A source whose projection is neither EPSG:4326 nor EPSG:3857, at construction and
  at every later change, never makes the provider ready and never activates the
  delegate, whatever is requested and whichever promises settle in between. Below the
  minimum level \<open>requestImage\<close> then returns the placeholder promise and leaves the
  provider as it is. At any other level \<open>requestImage\<close> does not look at \<open>ready\<close>: for a
  tile that neither cache holds, with a tile URL and no headers function, it fetches the
  tile and returns the promise of the rasterized tile.
\<close>

theorem unsupported_projection_never_ready:
  assumes "unsupportedProjection s" and "onlyUnsupported as"
    and "b = run (snd (construct l m s fp opts)) as"
  shows "\<not> ready b \<and> olWmsDelegate' b = None
    \<and> (z < minimumLevel' b \<longrightarrow>
          requestImage b x y z request = (Some (emptyCanvasPromise' b), b))
    \<and> (\<not> z < minimumLevel' b
        \<and> \<not> containsKey (tileCache b)
              (getCacheKey' (if shouldRequestNextLevel b then z + 1 else z) x y)
        \<and> \<not> containsKey (featureCache b)
              (getCacheKey' (if shouldRequestNextLevel b then z + 1 else z) x y)
        \<and> getTileUrlFunction (source' b) = Some f \<and> projection' b = Some proj
        \<and> tileUrl b f proj (if shouldRequestNextLevel b then z + 1 else z) x y = Inr (Some u)
        \<and> u \<noteq> [] \<and> get_olcs_authHeaders (source' b) = None \<longrightarrow>
          fst (requestImage b x y z request) = Some (Promise (Suc (length (promises b))))
          \<and> fetches (snd (requestImage b x y z request)) = fetches b @ [Fetch u []])"
proof -
  let ?b0 = "initialise l m s fp opts"
  from assms(1) have "unsupportedProjection (source' ?b0)"
    by (simp add: initialise_fields)
  from handleSourceChanged'_unsupported [OF this initialise_fields(1)]
  have "\<not> ready' (snd (construct l m s fp opts))"
    and "olWmsDelegate' (snd (construct l m s fp opts)) = None"
    by (simp_all add: construct_def initialise_fields)
  from run_unsupported [OF this assms(2)] assms(3)
  have r: "\<not> ready' b" and d: "olWmsDelegate' b = None"
    by simp_all
  from d have "\<not> z < minimumLevel' b
        \<and> \<not> containsKey (tileCache b)
              (getCacheKey' (if shouldRequestNextLevel b then z + 1 else z) x y)
        \<and> \<not> containsKey (featureCache b)
              (getCacheKey' (if shouldRequestNextLevel b then z + 1 else z) x y)
        \<and> getTileUrlFunction (source' b) = Some f \<and> projection' b = Some proj
        \<and> tileUrl b f proj (if shouldRequestNextLevel b then z + 1 else z) x y = Inr (Some u)
        \<and> u \<noteq> [] \<and> get_olcs_authHeaders (source' b) = None \<longrightarrow>
          fst (requestImage b x y z request) = Some (Promise (Suc (length (promises b))))
          \<and> fetches (snd (requestImage b x y z request)) = fetches b @ [Fetch u []]"
    using requestImage_miss [of b z "if shouldRequestNextLevel b then z + 1 else z" x y f proj u request]
    by blast
  with r d show ?thesis
    by (simp add: ready_def requestImage_below)
qed

theorem unsupported_projection_never_ready_witness:
  "unsupportedProjection (exSource\<lparr>getProjection := Some (exProjection ''EPSG:9999'')\<rparr>)
   \<and> onlyUnsupported
        [SourceChange (exSource\<lparr>getProjection := Some (exProjection ''EPSG:9999'')\<rparr>),
         RequestImage 0 0 0 None]
   \<and> exUnsupported =
       run (snd (construct exLib exMap (exSource\<lparr>getProjection := Some (exProjection ''EPSG:9999'')\<rparr>)
                   None exOptions))
         [SourceChange (exSource\<lparr>getProjection := Some (exProjection ''EPSG:9999'')\<rparr>),
          RequestImage 0 0 0 None]
   \<and> \<not> ready exUnsupported
   \<and> 0 < minimumLevel' exUnsupported
   \<and> requestImage exUnsupported 0 0 0 None = (Some (Promise 0), exUnsupported)
   \<and> \<not> 2 < minimumLevel' exUnsupported
   \<and> fst (requestImage exUnsupported 0 0 2 None) = Some (Promise 2)
   \<and> fetches (snd (requestImage exUnsupported 0 0 2 None))
       = [Fetch ''https://tiles.example/t.pbf'' []]"
  using unsupported_projection_never_ready
          [of "exSource\<lparr>getProjection := Some (exProjection ''EPSG:9999'')\<rparr>"
              "[SourceChange (exSource\<lparr>getProjection := Some (exProjection ''EPSG:9999'')\<rparr>),
                RequestImage 0 0 0 None]"
              exUnsupported exLib exMap None exOptions 0 0 0 None
              "\<lambda>(z, x, y) pixelRatio p. Inr (Some ''https://tiles.example/t.pbf'')"
              "exProjection ''EPSG:9999''" "''https://tiles.example/t.pbf''"]
        unsupported_projection_never_ready
          [of "exSource\<lparr>getProjection := Some (exProjection ''EPSG:9999'')\<rparr>"
              "[SourceChange (exSource\<lparr>getProjection := Some (exProjection ''EPSG:9999'')\<rparr>),
                RequestImage 0 0 0 None]"
              exUnsupported exLib exMap None exOptions 2 0 0 None
              "\<lambda>(z, x, y) pixelRatio p. Inr (Some ''https://tiles.example/t.pbf'')"
              "exProjection ''EPSG:9999''" "''https://tiles.example/t.pbf''"]
        exUnsupported_changed
  by (simp add: exUnsupported_def [symmetric] unsupportedProjection_def onlyUnsupported_def
        getSourceProjection_def exUnsupported_fields)
     (simp add: exUnsupported_eq exSource_def exProjection_def exLib_def containsKey_def tileUrl_def
        fetches_def)

text \<open>
  The provider constructed on a ready source in EPSG:9999 is not ready, and its
  \<open>requestImage\<close> at the minimum level fetches the tile and returns the promise of the
  rasterized tile, not the placeholder promise.
\<close>

theorem unsupported_projection_fetches_counterexample:
  "getCode (the (getProjection (source' exUnsupported))) = ''EPSG:9999''
   \<and> \<not> ready exUnsupported
   \<and> fst (requestImage exUnsupported 0 0 2 None) = Some (Promise 2)
   \<and> fst (requestImage exUnsupported 0 0 2 None) \<noteq> Some (emptyCanvasPromise' exUnsupported)
   \<and> fetches (snd (requestImage exUnsupported 0 0 2 None))
       = [Fetch ''https://tiles.example/t.pbf'' []]"
  by (simp add: exUnsupported_def ex_defs ready_defs ready_def Let_def requestImage_def loadTile_def
        getTileFeatures_def tileUrl_def lookup_def containsKey_def record_event_def fetches_def
        setAndExpire_def set_entry_def getCount_def)

text \<open>
  C4. On a provider without delegate, at any moment of its life, \<open>requestImage\<close> below
  the minimum level returns the placeholder promise, which is resolved with the empty
  canvas, and leaves the provider as it is: no cache look-up, no call of the tile URL
  function, no fetch.
\<close>

theorem below_minimumLevel_placeholder:
  assumes "b = run (snd (construct l m s fp opts)) as"
    and "olWmsDelegate' b = None" and "z < minimumLevel' b"
  shows "requestImage b x y z request = (Some (emptyCanvasPromise' b), b)
    \<and> settleTile b net h (emptyCanvasPromise' b) = Some (Fulfilled (emptyCanvas' b), h, b)"
  using assms placeholderResolved_run [OF placeholderResolved_construct, of l m s fp opts as]
  by (simp add: requestImage_below settleTile_placeholder)

theorem below_minimumLevel_placeholder_witness:
  "exVector = run (snd (construct exLib exMap exSource None exOptions)) []
   \<and> olWmsDelegate' exVector = None \<and> 0 < minimumLevel' exVector
   \<and> requestImage exVector 0 0 0 None = (Some (Promise 0), exVector)
   \<and> settleTile exVector (\<lambda>url hs. NetworkFailure) [] (Promise 0)
       = Some (Fulfilled createEmptyCanvas, [], exVector)"
  using below_minimumLevel_placeholder
          [of exVector exLib exMap exSource None exOptions "[]" 0 0 0 None
              "\<lambda>url hs. NetworkFailure" "[]"]
        placeholderResolved_construct [of exLib exMap exSource None exOptions]
  by (simp add: exVector_fields run_def exVector_def [symmetric] placeholderResolved_def)

text \<open>
  With the delegate active, a request below the minimum level is answered by the
  delegate, not with the placeholder promise.
\<close>

theorem below_minimumLevel_delegated_counterexample:
  "0 < minimumLevel' exDelegated
   \<and> fst (requestImage exDelegated 0 0 0 None) \<noteq> Some (emptyCanvasPromise' exDelegated)"
  by (simp add: requestImage_delegate [of exDelegated exDelegate] exDelegated_fields exDelegate_def)

text \<open>
  C5. On the example provider, the promise that \<open>requestImage\<close> returns for a tile is
  rejected when the fetch fails, when the response is not ok and when the decoder
  throws; nothing has been raised on \<open>errorEvent\<close>, and settling the promise leaves the
  provider as it is, so nothing is raised then either; the next request for the tile
  returns the same promise and fetches nothing.
\<close>

theorem fetch_failure_unreported:
  "fst (requestImage exVector 0 0 2 None) = Some (Promise 2)
   \<and> settleTile (snd (requestImage exVector 0 0 2 None)) (\<lambda>url hs. NetworkFailure) [] (Promise 2)
       = Some (Rejected ''fetch failed'', [], snd (requestImage exVector 0 0 2 None))
   \<and> settleTile (snd (requestImage exVector 0 0 2 None)) (\<lambda>url hs. Response False None) []
        (Promise 2)
       = Some (Rejected ''response not ok'', [], snd (requestImage exVector 0 0 2 None))
   \<and> settleTile ((snd (requestImage exVector 0 0 2 None))\<lparr>lib := exLib\<lparr>readFeatures := exBadDecoder\<rparr>\<rparr>)
        (\<lambda>url hs. Response True (Some [])) [] (Promise 2)
       = Some (Rejected ''unexpected end of tile'', [],
               (snd (requestImage exVector 0 0 2 None))\<lparr>lib := exLib\<lparr>readFeatures := exBadDecoder\<rparr>\<rparr>)
   \<and> errorEvents (snd (requestImage exVector 0 0 2 None)) = []
   \<and> fst (requestImage (snd (requestImage exVector 0 0 2 None)) 0 0 2 None) = Some (Promise 2)
   \<and> fetches (snd (requestImage (snd (requestImage exVector 0 0 2 None)) 0 0 2 None))
       = [Fetch ''https://tiles.example/t.pbf'' []]"
  by (simp add: exVector_requested exVector_eq exSource_def exLib_def request_defs Let_def
        settleTile_def settleFeatures_def recipeOf_def readFeaturesFromBuffer_def exBadDecoder_def
        errorEvents_def)

text \<open>
  C6. In \<open>src/olcs/MVTWMSImageryProvider.ts\<close>, the coordinate array of a decoded
  feature is never written after the decoder has returned it: \<open>readFeaturesFromBuffer\<close>
  hands on what the decoder returns, store included; \<open>rasterizeFeatures\<close> leaves every
  array that is in the store when it is called as it is, the coordinate array of each
  feature it is given among them, since the loop of \<open>cloneAndScaleGeometry_\<close> writes to
  the array it has allocated and to no other; and when the promise of a tile settles on
  a response that the decoder reads, the store that the decoder left is still there,
  unchanged, under the canvas.
\<close>

theorem rasterizeFeatures_keeps_buffers:
  assumes "f \<in> set features" and "getFlatCoordinates f = Some a" and "a < length h"
  shows "readFeaturesFromBuffer b h0 buffer = readFeatures (lib b) buffer h0
    \<and> arrayAt (snd (rasterizeFeatures b h features styleFn resolution)) a = arrayAt h a
    \<and> take (length h) (snd (rasterizeFeatures b h features styleFn resolution)) = h
    \<and> (recipeOf b p = Some (ThenRasterize fp x y z')
        \<and> recipeOf b fp = Some (FetchFeatures url hs)
        \<and> net url hs = Response True (Some buffer)
        \<and> readFeatures (lib b) buffer h0 = Inr (features, h) \<longrightarrow>
          (\<exists>c h2 b1. settleTile b net h0 p = Some (Fulfilled c, h2, b1)
             \<and> take (length h) h2 = h \<and> arrayAt h2 a = arrayAt h a))"
proof -
  have prefix: "arrayAt h2 a = arrayAt h a" if "take (length h) h2 = h" for h2
  proof -
    from that have "length (take (length h) h2) = length h"
      by simp
    then have le: "length h \<le> length h2"
      by simp
    from assms(3) have "take (length h) h2 ! a = h2 ! a"
      by simp
    with that assms(3) le show ?thesis
      by (simp add: arrayAt_def)
  qed
  let ?h1 = "snd (rasterizeFeatures b h features styleFn resolution)"
  have t: "take (length h) ?h1 = h"
    by (simp add: rasterizeFeatures_def Let_def rasterizeLoop_heap)
  have s: "\<exists>c h2 b1. settleTile b net h0 p = Some (Fulfilled c, h2, b1)
             \<and> take (length h) h2 = h \<and> arrayAt h2 a = arrayAt h a"
    if "recipeOf b p = Some (ThenRasterize fp x y z')"
      and "recipeOf b fp = Some (FetchFeatures url hs)"
      and "net url hs = Response True (Some buffer)"
      and "readFeatures (lib b) buffer h0 = Inr (features, h)"
    using settleTile_decoded [of b p fp x y z' url hs net buffer h0 features h] that prefix by blast
  from t prefix [OF t] s show ?thesis
    by (simp add: readFeaturesFromBuffer_def)
qed

theorem rasterizeFeatures_keeps_buffers_witness:
  "exFeature \<in> set [exFeature] \<and> getFlatCoordinates exFeature = Some 0 \<and> 0 < length exHeap
   \<and> arrayAt (snd (rasterizeFeatures exVector exHeap [exFeature] (styleFunction' exVector) 1)) 0
       = [Some 0, Some 0, Some 4096, Some 4096]
   \<and> recipeOf (snd (requestImage exVector 0 0 2 None)) (Promise 2)
       = Some (ThenRasterize (Promise 1) 0 0 2)
   \<and> recipeOf (snd (requestImage exVector 0 0 2 None)) (Promise 1)
       = Some (FetchFeatures ''https://tiles.example/t.pbf'' [])
   \<and> readFeatures (lib (snd (requestImage exVector 0 0 2 None))) [] [] = Inr ([exFeature], exHeap)
   \<and> (\<exists>c h2 b1.
         settleTile (snd (requestImage exVector 0 0 2 None)) (\<lambda>url hs. Response True (Some [])) []
           (Promise 2) = Some (Fulfilled c, h2, b1)
         \<and> arrayAt h2 0 = [Some 0, Some 0, Some 4096, Some 4096])"
proof -
  let ?b = "snd (requestImage exVector 0 0 2 None)"
  have m: "exFeature \<in> set [exFeature]" "getFlatCoordinates exFeature = Some 0"
    "0 < length exHeap"
    by (simp_all add: exFeature_def exHeap_def)
  have r: "recipeOf ?b (Promise 2) = Some (ThenRasterize (Promise 1) 0 0 2)"
    "recipeOf ?b (Promise 1) = Some (FetchFeatures ''https://tiles.example/t.pbf'' [])"
    "readFeatures (lib ?b) [] [] = Inr ([exFeature], exHeap)"
    unfolding exVector_requested
    by (simp_all add: recipeOf_def exVector_eq exLib_def exFeature_def exHeap_def)
  have h: "arrayAt exHeap 0 = [Some 0, Some 0, Some 4096, Some 4096]"
    by (simp add: exHeap_def arrayAt_def)
  from rasterizeFeatures_keeps_buffers
         [OF m, where b = ?b and p = "Promise 2" and fp = "Promise 1" and x = 0 and y = 0
            and z' = 2 and url = "''https://tiles.example/t.pbf''" and hs = "[]"
            and net = "\<lambda>url hs. Response True (Some [])" and buffer = "[]" and ?h0.0 = "[]"]
       r
  have s: "\<exists>c h2 b1.
         settleTile ?b (\<lambda>url hs. Response True (Some [])) [] (Promise 2) = Some (Fulfilled c, h2, b1)
         \<and> arrayAt h2 0 = arrayAt exHeap 0"
    by blast
  from rasterizeFeatures_keeps_buffers
         [OF m, where b = exVector and styleFn = "styleFunction' exVector" and resolution = 1]
  have "arrayAt (snd (rasterizeFeatures exVector exHeap [exFeature] (styleFunction' exVector) 1)) 0
          = arrayAt exHeap 0"
    by blast
  with m r s h show ?thesis
    by simp
qed

text \<open>
  In the second copy of the class, \<open>src/src/olcs/MVTWMSImageryProvider.ts\<close>,
  \<open>readFeaturesFromBuffer\<close> scales the arrays that the decoder has returned, in place:
  with tiles 256 wide the array from 0 to 4096 that the decoder returns holds 0 to 256
  afterwards.
\<close>

theorem decode_scales_in_place_counterexample:
  "readFeatures2 exLib2 None [] [] = Inr ([exFeature], exHeap)
   \<and> readFeaturesFromBuffer2 exLib2 exVector [] []
       = (Inr [exFeature], [[Some 0, Some 0, Some 256, Some 256]])
   \<and> arrayAt (snd (readFeaturesFromBuffer2 exLib2 exVector [] [])) 0 \<noteq> arrayAt exHeap 0"
  by (simp add: exLib2_def exLib_def exFeature_def exHeap_def readFeaturesFromBuffer2_def
        tileWidth2_def exVector_eq exSource_def scaleInPlace.simps arrayAt_def store_def
        element_def assign_def scaled_def Let_def)

text \<open>
  C7. The array that \<open>rasterizeFeatures\<close> allocates for a feature holds the feature's
  coordinates scaled by \<open>tileWidth / 4096\<close> along \<open>x\<close> and \<open>tileHeight / 4096\<close> along \<open>y\<close>,
  with no offset and no flip; and on a tile of 256 by 256 pixels a line from \<open>[0, 0]\<close>
  to \<open>[4096, 4096]\<close> is drawn from \<open>[0, 0]\<close> to \<open>[256, 256]\<close>.
\<close>

theorem scaling_onto_tile:
  assumes "getFlatCoordinates f = Some src" and "src < length h"
  shows "arrayAt (snd (rasterizeFeatures b h [f] styleFn resolution)) (length h) =
       scalePairs (tileWidth b / 4096) (tileHeight b / 4096) (arrayAt h src)
    \<and> (tileWidth b = 256 \<and> tileHeight b = 256
         \<and> arrayAt h src = [Some 0, Some 0, Some 4096, Some 4096]
         \<and> getType f = ''LineString'' \<and> getEnds f = None
         \<and> styleFn f resolution = OneStyle s \<longrightarrow>
       fst (rasterizeFeatures b h [f] styleFn resolution) =
         \<lparr>width = 256, height = 256,
          drawn = [(s, LineString [(Some 0, Some 0), (Some 256, Some 256)])]\<rparr>)"
proof (intro conjI impI)
  show "arrayAt (snd (rasterizeFeatures b h [f] styleFn resolution)) (length h) =
       scalePairs (tileWidth b / 4096) (tileHeight b / 4096) (arrayAt h src)"
    using assms
    by (simp add: rasterizeFeatures_def Let_def rasterizeLoop_single cloneAndScaleGeometry'_buffer
          del: rasterizeLoop.simps)
next
  assume c: "tileWidth b = 256 \<and> tileHeight b = 256
         \<and> arrayAt h src = [Some 0, Some 0, Some 4096, Some 4096]
         \<and> getType f = ''LineString'' \<and> getEnds f = None
         \<and> styleFn f resolution = OneStyle s"
  let ?sx = "256 / 4096 :: real"
  from cloneAndScaleGeometry'_buffer [OF assms, of ?sx ?sx] c
  have flat: "arrayAt (snd (cloneAndScaleGeometry' h f ?sx ?sx)) (length h)
      = [Some 0, Some 0, Some 256, Some 256]"
    by (simp add: scaled_def)
  from assms c have g: "fst (cloneAndScaleGeometry' h f ?sx ?sx) =
      Some (LineString (flatToCoords'
        (arrayAt (snd (cloneAndScaleGeometry' h f ?sx ?sx)) (length h))
        [length (arrayAt (snd (cloneAndScaleGeometry' h f ?sx ?sx)) (length h))]))"
    by (simp add: cloneAndScaleGeometry'_def newArray_def Let_def endsOr_def)
  with flat have "fst (cloneAndScaleGeometry' h f ?sx ?sx) =
      Some (LineString [(Some 0, Some 0), (Some 256, Some 256)])"
    by (simp add: flatToCoords'_def pushCoords_two)
  then obtain h1 where "cloneAndScaleGeometry' h f ?sx ?sx =
      (Some (LineString [(Some 0, Some 0), (Some 256, Some 256)]), h1)"
    by (cases "cloneAndScaleGeometry' h f ?sx ?sx") simp
  with c show "fst (rasterizeFeatures b h [f] styleFn resolution) =
         \<lparr>width = 256, height = 256,
          drawn = [(s, LineString [(Some 0, Some 0), (Some 256, Some 256)])]\<rparr>"
    by (simp add: rasterizeFeatures_def Let_def drawAll_def)
qed

theorem scaling_onto_tile_witness:
  "getFlatCoordinates exFeature = Some 0 \<and> 0 < length exHeap
   \<and> tileWidth exVector = 256 \<and> tileHeight exVector = 256
   \<and> arrayAt exHeap 0 = [Some 0, Some 0, Some 4096, Some 4096]
   \<and> getType exFeature = ''LineString'' \<and> getEnds exFeature = None
   \<and> arrayAt (snd (rasterizeFeatures exVector exHeap [exFeature] (\<lambda>f r. OneStyle ''red'') 1)) 1
       = [Some 0, Some 0, Some 256, Some 256]
   \<and> fst (rasterizeFeatures exVector exHeap [exFeature] (\<lambda>f r. OneStyle ''red'') 1) =
         \<lparr>width = 256, height = 256,
          drawn = [(''red'', LineString [(Some 0, Some 0), (Some 256, Some 256)])]\<rparr>"
  using scaling_onto_tile [of exFeature 0 exHeap exVector "\<lambda>f r. OneStyle ''red''" 1 "''red''"]
  by (simp add: exFeature_def exHeap_def arrayAt_def tileWidth_def tileHeight_def exVector_eq
        exSource_def scaled_def)





text \<open>
  C10. With the delegate active, a request below the minimum level is forwarded to the
  delegate: the answer is the delegate's, and the provider is left as it is.
\<close>

theorem delegate_precedes_minimumLevel:
  assumes "olWmsDelegate' b = Some d" and "z < minimumLevel' b"
  shows "requestImage b x y z request = (delegateRequestImage d x y z request, b)"
  using assms(1) by (rule requestImage_delegate)

theorem delegate_precedes_minimumLevel_witness:
  "olWmsDelegate' exDelegated = Some exDelegate \<and> 0 < minimumLevel' exDelegated
   \<and> requestImage exDelegated 0 0 0 None = (Some (DelegatePromise 7), exDelegated)"
  using delegate_precedes_minimumLevel [of exDelegated exDelegate 0 0 0 None]
  by (simp add: exDelegated_fields exDelegate_def)

end
